theory Spec2Isabelle
  imports Main
begin

section \<open>Values of the request and of thrown errors\<close>

text \<open>
  A request body is the JavaScript value the JSON body parser left in \<open>req.body\<close>.
  \<open>JUndefined\<close> is the value of a property that is not there. Numbers are modelled as
  integers (every number the routes use is an id); \<open>JDate\<close> is a \<open>Date\<close> object, by its
  time value, which a schema can produce and a JSON body never holds; an object is its
  list of properties, read by key, the first binding of a key being the one that counts.
\<close>

datatype json =
    JUndefined
  | JNull
  | JBool bool
  | JNum int
  | JStr string
  | JDate int
  | JArr "json list"
  | JObj "(string \<times> json) list"

text \<open>The result of \<open>parseInt(req.params.id)\<close>: an integer, or \<open>NaN\<close>.\<close>

datatype jsnum = NaN | Num int

text \<open>
  An awaited call either returns a value or throws. \<open>Threw\<close> stands for every error that
  is not a \<open>ZodError\<close>: the \<open>catch\<close> blocks of the routes answer it with status 500.
\<close>

datatype 'a outcome = Threw | Returned 'a

type_synonym object = "(string \<times> json) list"

text \<open>The property of an object, \<open>undefined\<close> when the object lacks it.\<close>

definition obj_field :: "object \<Rightarrow> string \<Rightarrow> json" where
  "obj_field kvs k = (case map_of kvs k of Some v \<Rightarrow> v | None \<Rightarrow> JUndefined)"

text \<open>
  \<open>body.key\<close>, and one binding of \<open>const { key } = body\<close>: reading a property of
  \<open>undefined\<close> or \<open>null\<close> throws a TypeError; a value without the property gives
  \<open>undefined\<close> (the routes read no property that an array or a string has).
\<close>

fun get_prop :: "json \<Rightarrow> string \<Rightarrow> json outcome" where
  "get_prop JUndefined k = Threw"
| "get_prop JNull k = Threw"
| "get_prop (JObj kvs) k = Returned (obj_field kvs k)"
| "get_prop v k = Returned JUndefined"

text \<open>The operand test of \<open>||\<close>: \<open>undefined\<close>, \<open>null\<close>, \<open>false\<close>, \<open>0\<close> and \<open>""\<close> are falsy.\<close>

fun truthy :: "json \<Rightarrow> bool" where
  "truthy JUndefined = False"
| "truthy JNull = False"
| "truthy (JBool b) = b"
| "truthy (JNum n) = (n \<noteq> 0)"
| "truthy (JStr s) = (s \<noteq> [])"
| "truthy (JDate t) = True"
| "truthy (JArr xs) = True"
| "truthy (JObj kvs) = True"

definition js_or :: "json \<Rightarrow> json \<Rightarrow> json" where
  "js_or a b = (if truthy a then a else b)"

text \<open>
  The own enumerable properties an object spread \<open>{...v}\<close> copies: those of an object,
  the indices of an array or of a string, none for the other values.
\<close>

fun digit_char :: "nat \<Rightarrow> char" where
  "digit_char n = char_of (48 + n mod 10)"

fun show_nat :: "nat \<Rightarrow> string" where
  "show_nat n = (if n < 10 then [digit_char n] else show_nat (n div 10) @ [digit_char n])"

declare show_nat.simps [simp del]

fun spread :: "json \<Rightarrow> object" where
  "spread (JObj kvs) = kvs"
| "spread (JArr xs) = map (\<lambda>i. (show_nat i, xs ! i)) [0..<length xs]"
| "spread (JStr s) = map (\<lambda>i. (show_nat i, JStr [s ! i])) [0..<length s]"
| "spread v = []"

text \<open>\<open>{...v, key: x}\<close>: the later property replaces one of the same name.\<close>

definition spread_with :: "json \<Rightarrow> string \<Rightarrow> json \<Rightarrow> json" where
  "spread_with v k x = JObj ((k, x) # spread v)"

section \<open>Schema validation (schema.ts)\<close>

subsection \<open>The schema library\<close>

text \<open>
  An issue of a \<open>ZodError\<close>: its code and the path of the value it is about. A message
  is kept where the source gives one.
\<close>

datatype issue_code =
    invalid_type
  | invalid_enum_value
  | invalid_date
  | out_of_range
  | invalid_string string
  | too_small string
  | custom string

datatype issue = Issue issue_code "string list"

text \<open>
  The result of parsing a value: the issues raised, and the parsed value unless parsing
  was aborted. A check that fails (\<open>min\<close>, \<open>email\<close>, a column's range) raises an issue
  and keeps the value; a value of the wrong type aborts.
\<close>

type_synonym 'a zresult = "issue list \<times> 'a option"

text \<open>
  What the schemas take from their libraries and the source does not fix: the test
  behind \<open>z.string().email()\<close>, the time value of \<open>new Date(v)\<close> used by
  \<open>z.coerce.date()\<close> (\<open>None\<close> for an invalid date), and the bounds the generated schema
  puts on an \<open>integer\<close> column.
\<close>

record zod_env =
  is_email :: "string \<Rightarrow> bool"
  new_Date :: "json \<Rightarrow> int option"
  integer_column :: "int \<Rightarrow> bool"

datatype string_check = MinLength nat string | Email string

datatype ztype =
    ZString "string_check list"
  | ZInteger
  | ZBoolean
  | ZDate
  | ZCoerceDate
  | ZEnum "string list"
  | ZNullable ztype
  | ZOptional ztype

type_synonym shape = "(string \<times> ztype) list"

fun run_check :: "zod_env \<Rightarrow> string list \<Rightarrow> string \<Rightarrow> string_check \<Rightarrow> issue list" where
  "run_check L p s (MinLength n msg) = (if length s < n then [Issue (too_small msg) p] else [])"
| "run_check L p s (Email msg) = (if is_email L s then [] else [Issue (invalid_string msg) p])"

fun parse_type :: "zod_env \<Rightarrow> string list \<Rightarrow> ztype \<Rightarrow> json \<Rightarrow> json zresult" where
  "parse_type L p (ZString cs) v =
     (case v of
        JStr s \<Rightarrow> (concat (map (run_check L p s) cs), Some (JStr s))
      | _ \<Rightarrow> ([Issue invalid_type p], None))"
| "parse_type L p ZInteger v =
     (case v of
        JNum n \<Rightarrow> (if integer_column L n then [] else [Issue out_of_range p], Some (JNum n))
      | _ \<Rightarrow> ([Issue invalid_type p], None))"
| "parse_type L p ZBoolean v =
     (case v of
        JBool b \<Rightarrow> ([], Some (JBool b))
      | _ \<Rightarrow> ([Issue invalid_type p], None))"
| "parse_type L p ZDate v =
     (case v of
        JDate t \<Rightarrow> ([], Some (JDate t))
      | _ \<Rightarrow> ([Issue invalid_type p], None))"
| "parse_type L p ZCoerceDate v =
     (case new_Date L v of
        Some t \<Rightarrow> ([], Some (JDate t))
      | None \<Rightarrow> ([Issue invalid_date p], None))"
| "parse_type L p (ZEnum vs) v =
     (case v of
        JStr s \<Rightarrow> (if s \<in> set vs then ([], Some (JStr s)) else ([Issue invalid_enum_value p], None))
      | _ \<Rightarrow> ([Issue invalid_type p], None))"
| "parse_type L p (ZNullable t) v =
     (if v = JNull then ([], Some JNull) else parse_type L p t v)"
| "parse_type L p (ZOptional t) v =
     (if v = JUndefined then ([], Some JUndefined) else parse_type L p t v)"

text \<open>
  An object schema parses each key of its shape, in the shape's order, and drops every
  other key of the input. The issues of all keys are collected; the result is aborted
  when one key is. A key whose value comes out \<open>undefined\<close> is left out of the result.
\<close>

fun parse_shape :: "zod_env \<Rightarrow> shape \<Rightarrow> object \<Rightarrow> object zresult" where
  "parse_shape L [] inp = ([], Some [])"
| "parse_shape L ((k, t) # sh) inp =
     (let r = parse_type L [k] t (obj_field inp k);
          rs = parse_shape L sh inp
      in (fst r @ fst rs,
          case (snd r, snd rs) of
            (Some v, Some out) \<Rightarrow> Some (if v = JUndefined then out else (k, v) # out)
          | _ \<Rightarrow> None))"

definition z_object :: "zod_env \<Rightarrow> shape \<Rightarrow> json \<Rightarrow> object zresult" where
  "z_object L sh v =
     (case v of
        JObj kvs \<Rightarrow> parse_shape L sh kvs
      | _ \<Rightarrow> ([Issue invalid_type []], None))"

text \<open>
  \<open>.refine(check, {message, path})\<close>: the check runs on the parsed value unless
  parsing was aborted, and raises a custom issue when it fails.
\<close>

definition refine :: "(object \<Rightarrow> bool) \<Rightarrow> string \<Rightarrow> string list \<Rightarrow> object zresult \<Rightarrow> object zresult" where
  "refine check msg p r =
     (case snd r of
        Some d \<Rightarrow> (if check d then r else (fst r @ [Issue (custom msg) p], Some d))
      | None \<Rightarrow> r)"

text \<open>
  \<open>schema.parse(v)\<close> returns the value when no issue was raised and throws a
  \<open>ZodError\<close> with the issues otherwise (\<open>Inl\<close>).
\<close>

definition zparse :: "'a zresult \<Rightarrow> issue list + 'a" where
  "zparse r = (case r of ([], Some x) \<Rightarrow> Inr x | (is, _) \<Rightarrow> Inl is)"

definition parse :: "zod_env \<Rightarrow> shape \<Rightarrow> json \<Rightarrow> issue list + object" where
  "parse L sh v = zparse (z_object L sh v)"

text \<open>
  \<open>.omit\<close>, \<open>.extend\<close> and \<open>.partial\<close> on the shape of an object schema. \<open>.extend\<close> is
  \<open>{...shape, ...augmentation}\<close>: a key of the shape keeps its place and takes the new
  type, a new key goes to the end.
\<close>

definition omit :: "string list \<Rightarrow> shape \<Rightarrow> shape" where
  "omit ks sh = filter (\<lambda>(k, t). k \<notin> set ks) sh"

fun put_key :: "string \<Rightarrow> ztype \<Rightarrow> shape \<Rightarrow> shape" where
  "put_key k t [] = [(k, t)]"
| "put_key k t ((k', t') # sh) = (if k' = k then (k, t) # sh else (k', t') # put_key k t sh)"

fun extend_shape :: "shape \<Rightarrow> shape \<Rightarrow> shape" where
  "extend_shape sh [] = sh"
| "extend_shape sh ((k, t) # aug) = extend_shape (put_key k t sh) aug"

definition partial :: "shape \<Rightarrow> shape" where
  "partial sh = map (\<lambda>(k, t). (k, ZOptional t)) sh"

subsection \<open>Tables and the insert schemas generated from them\<close>

text \<open>
  A column as its builder leaves it: the property name, the data type, and whether it
  is \<open>notNull\<close> and has a default. \<open>serial\<close> is an integer column that is not null and
  has a default; \<open>unique\<close> and \<open>references\<close> do not change the insert schema.
\<close>

datatype col_type = CInteger | CText | CBoolean | CTimestamp | CEnum "string list"

record column =
  col_key :: string
  col_type :: col_type
  col_notNull :: bool
  col_hasDefault :: bool

definition serial :: "string \<Rightarrow> column" where
  "serial k = \<lparr>col_key = k, col_type = CInteger, col_notNull = True, col_hasDefault = True\<rparr>"

definition integer :: "string \<Rightarrow> column" where
  "integer k = \<lparr>col_key = k, col_type = CInteger, col_notNull = False, col_hasDefault = False\<rparr>"

definition text_col :: "string \<Rightarrow> column" where
  "text_col k = \<lparr>col_key = k, col_type = CText, col_notNull = False, col_hasDefault = False\<rparr>"

definition boolean :: "string \<Rightarrow> column" where
  "boolean k = \<lparr>col_key = k, col_type = CBoolean, col_notNull = False, col_hasDefault = False\<rparr>"

definition timestamp :: "string \<Rightarrow> column" where
  "timestamp k = \<lparr>col_key = k, col_type = CTimestamp, col_notNull = False, col_hasDefault = False\<rparr>"

definition pgEnum :: "string list \<Rightarrow> string \<Rightarrow> column" where
  "pgEnum vs k = \<lparr>col_key = k, col_type = CEnum vs, col_notNull = False, col_hasDefault = False\<rparr>"

definition notNull :: "column \<Rightarrow> column" where
  "notNull c = c\<lparr>col_notNull := True\<rparr>"

definition with_default :: "column \<Rightarrow> column" where
  "with_default c = c\<lparr>col_hasDefault := True\<rparr>"

definition primaryKey :: "column \<Rightarrow> column" where
  "primaryKey c = c\<lparr>col_notNull := True\<rparr>"

definition unique :: "column \<Rightarrow> column" where
  "unique c = c"

definition references :: "column \<Rightarrow> column" where
  "references c = c"

text \<open>
  \<open>createInsertSchema(table)\<close>: each column gives a key of the column's type, nullable
  and optional when the column may be null, optional when it has a default.
\<close>

fun column_type :: "col_type \<Rightarrow> ztype" where
  "column_type CInteger = ZInteger"
| "column_type CText = ZString []"
| "column_type CBoolean = ZBoolean"
| "column_type CTimestamp = ZDate"
| "column_type (CEnum vs) = ZEnum vs"

definition insert_type :: "column \<Rightarrow> ztype" where
  "insert_type c =
     (if \<not> col_notNull c then ZOptional (ZNullable (column_type (col_type c)))
      else if col_hasDefault c then ZOptional (column_type (col_type c))
      else column_type (col_type c))"

definition createInsertSchema :: "column list \<Rightarrow> shape" where
  "createInsertSchema cols = map (\<lambda>c. (col_key c, insert_type c)) cols"

definition frequencyEnum :: "string \<Rightarrow> column" where
  "frequencyEnum = pgEnum [''daily'', ''twice_daily'', ''three_times_daily'', ''four_times_daily'',
                           ''weekly'', ''as_needed'', ''other'']"

definition users :: "column list" where
  "users =
     [primaryKey (serial ''id''),
      unique (notNull (text_col ''username'')),
      notNull (text_col ''password''),
      text_col ''fullName'',
      integer ''age'',
      text_col ''disease'',
      text_col ''city'',
      with_default (boolean ''profileComplete'')]"

definition medications :: "column list" where
  "medications =
     [primaryKey (serial ''id''),
      references (notNull (integer ''userId'')),
      notNull (text_col ''name''),
      notNull (text_col ''dosage''),
      notNull (frequencyEnum ''frequency''),
      notNull (timestamp ''startTime''),
      text_col ''notes'',
      with_default (boolean ''active''),
      with_default (timestamp ''createdAt'')]"

definition medicationReminders :: "column list" where
  "medicationReminders =
     [primaryKey (serial ''id''),
      references (notNull (integer ''medicationId'')),
      notNull (timestamp ''reminderTime''),
      with_default (boolean ''taken''),
      timestamp ''takenAt'',
      with_default (boolean ''skipped'')]"

definition caregivers :: "column list" where
  "caregivers =
     [primaryKey (serial ''id''),
      unique (notNull (text_col ''username'')),
      notNull (text_col ''password''),
      notNull (text_col ''fullName''),
      text_col ''phone'',
      notNull (text_col ''email''),
      text_col ''relation'',
      with_default (timestamp ''createdAt'')]"

definition userCaregivers :: "column list" where
  "userCaregivers =
     [primaryKey (serial ''id''),
      references (notNull (integer ''userId'')),
      references (notNull (integer ''caregiverId'')),
      with_default (notNull (text_col ''accessLevel'')),
      with_default (boolean ''active''),
      with_default (timestamp ''createdAt'')]"

definition medicationSchema :: shape where
  "medicationSchema = omit [''id'', ''createdAt''] (createInsertSchema medications)"

definition medicationReminderSchema :: shape where
  "medicationReminderSchema = omit [''id'', ''takenAt''] (createInsertSchema medicationReminders)"

definition caregiverSchema :: shape where
  "caregiverSchema = omit [''id'', ''createdAt''] (createInsertSchema caregivers)"

definition userCaregiverSchema :: shape where
  "userCaregiverSchema = omit [''id'', ''createdAt''] (createInsertSchema userCaregivers)"

definition medicationFormSchema :: shape where
  "medicationFormSchema =
     extend_shape medicationSchema
       [(''frequency'', ZEnum [''daily'', ''twice_daily'', ''three_times_daily'', ''four_times_daily'',
                               ''weekly'', ''as_needed'', ''other'']),
        (''startTime'', ZCoerceDate)]"

definition caregiverFormShape :: shape where
  "caregiverFormShape =
     extend_shape caregiverSchema
       [(''email'', ZString [Email ''Please enter a valid email address'']),
        (''password'', ZString [MinLength 8 ''Password must be at least 8 characters'']),
        (''confirmPassword'', ZString [])]"

definition caregiverFormSchema :: "zod_env \<Rightarrow> json \<Rightarrow> object zresult" where
  "caregiverFormSchema L v =
     refine (\<lambda>data. obj_field data ''password'' = obj_field data ''confirmPassword'')
       ''Passwords do not match'' [''confirmPassword'']
       (z_object L caregiverFormShape v)"

subsection \<open>Rows\<close>

text \<open>Rows of the tables. A nullable column is an \<open>option\<close>; timestamps are time values.\<close>

record user =
  u_id :: int
  u_username :: string
  u_password :: string
  u_fullName :: "string option"
  u_age :: "int option"
  u_disease :: "string option"
  u_city :: "string option"
  u_profileComplete :: "bool option"

record medication =
  m_id :: int
  m_userId :: int
  m_name :: string
  m_dosage :: string
  m_frequency :: string
  m_startTime :: int
  m_notes :: "string option"
  m_active :: "bool option"
  m_createdAt :: "int option"

record reminder =
  r_id :: int
  r_medicationId :: int
  r_reminderTime :: int
  r_taken :: "bool option"
  r_takenAt :: "int option"
  r_skipped :: "bool option"

record caregiver =
  c_id :: int
  c_username :: string
  c_password :: string
  c_fullName :: string
  c_phone :: "string option"
  c_email :: string
  c_relation :: "string option"
  c_createdAt :: "int option"

record user_caregiver =
  uc_id :: int
  uc_userId :: int
  uc_caregiverId :: int
  uc_accessLevel :: string
  uc_active :: "bool option"
  uc_createdAt :: "int option"

text \<open>\<open>{...caregiver, accessLevel: a}\<close>: the caregiver row with one more property.\<close>

record caregiver_with_access = caregiver +
  accessLevel :: string

definition with_accessLevel :: "caregiver \<Rightarrow> string \<Rightarrow> caregiver_with_access" where
  "with_accessLevel c a = caregiver.extend c (caregiver_with_access.fields a)"

section \<open>The persistence gateway, as the routes use it\<close>

text \<open>
  The routes call the operations of \<open>storage\<close> and await them. An implementation of
  the module is a parameter of every route: a record of its operations over a store
  of type \<open>'st\<close>, so that what is proved of a route holds for each. An operation that
  reads returns its outcome; an operation that writes returns its outcome and the
  store it leaves. Values that come from the request are passed as they are.
\<close>

record 'st storage =
  updateUserProfile :: "'st \<Rightarrow> int \<Rightarrow> json \<Rightarrow> user option outcome \<times> 'st"
  getMedications :: "'st \<Rightarrow> int \<Rightarrow> medication list outcome"
  getMedication :: "'st \<Rightarrow> jsnum \<Rightarrow> medication option outcome"
  createMedication :: "'st \<Rightarrow> object \<Rightarrow> medication outcome \<times> 'st"
  updateMedication :: "'st \<Rightarrow> jsnum \<Rightarrow> object \<Rightarrow> medication option outcome \<times> 'st"
  deleteMedication :: "'st \<Rightarrow> jsnum \<Rightarrow> bool outcome \<times> 'st"
  getMedicationReminders :: "'st \<Rightarrow> jsnum \<Rightarrow> reminder list outcome"
  updateMedicationReminder :: "'st \<Rightarrow> jsnum \<Rightarrow> json \<Rightarrow> json \<Rightarrow> reminder option outcome \<times> 'st"
  getCaregivers :: "'st \<Rightarrow> int \<Rightarrow> caregiver list outcome"
  getCaregiverByUsername :: "'st \<Rightarrow> json \<Rightarrow> caregiver option outcome"
  createCaregiver :: "'st \<Rightarrow> object \<Rightarrow> caregiver outcome \<times> 'st"
  linkCaregiverToUser :: "'st \<Rightarrow> object \<Rightarrow> user_caregiver outcome \<times> 'st"
  updateCaregiverAccess :: "'st \<Rightarrow> jsnum \<Rightarrow> json \<Rightarrow> json \<Rightarrow> user_caregiver option outcome \<times> 'st"

section \<open>Requests, responses and routes (routes.ts)\<close>

text \<open>
  What a route reads of a request: the id of the session's user (\<open>None\<close> when
  \<open>req.isAuthenticated()\<close> is false), \<open>parseInt(req.params.id)\<close>, and the body.
\<close>

record request =
  req_user :: "int option"
  req_id :: jsnum
  req_body :: json

datatype resp_body =
    NoBody
  | Error string
  | Issues "issue list"
  | OfUndefined
  | OfUser user
  | OfMedication medication
  | OfMedications "medication list"
  | OfReminder reminder
  | OfReminders "reminder list"
  | OfCaregivers "caregiver list"
  | OfCaregiverAccess caregiver_with_access
  | OfUserCaregiver user_caregiver

record response =
  status :: nat
  body :: resp_body

definition respond :: "nat \<Rightarrow> resp_body \<Rightarrow> response" where
  "respond code b = \<lparr>status = code, body = b\<rparr>"

text \<open>The middleware in front of every protected route.\<close>

definition ensureAuthenticated :: "request \<Rightarrow> 'st \<Rightarrow> (int \<Rightarrow> response \<times> 'st) \<Rightarrow> response \<times> 'st" where
  "ensureAuthenticated req st next =
     (case req_user req of
        Some uid \<Rightarrow> next uid
      | None \<Rightarrow> (respond 401 (Error ''Unauthorized''), st))"

text \<open>\<open>PUT /api/profile\<close>\<close>

definition put_profile :: "'st storage \<Rightarrow> request \<Rightarrow> 'st \<Rightarrow> response \<times> 'st" where
  "put_profile S req st = ensureAuthenticated req st (\<lambda>uid.
     case updateUserProfile S st uid (req_body req) of
       (Threw, st') \<Rightarrow> (respond 500 (Error ''Failed to update profile''), st')
     | (Returned None, st') \<Rightarrow> (respond 404 (Error ''User not found''), st')
     | (Returned (Some u), st') \<Rightarrow> (respond 200 (OfUser u), st'))"

text \<open>\<open>GET /api/medications\<close>\<close>

definition get_medications :: "'st storage \<Rightarrow> request \<Rightarrow> 'st \<Rightarrow> response \<times> 'st" where
  "get_medications S req st = ensureAuthenticated req st (\<lambda>uid.
     case getMedications S st uid of
       Threw \<Rightarrow> (respond 500 (Error ''Failed to fetch medications''), st)
     | Returned ms \<Rightarrow> (respond 200 (OfMedications ms), st))"

text \<open>\<open>GET /api/medications/:id\<close>\<close>

definition get_medication :: "'st storage \<Rightarrow> request \<Rightarrow> 'st \<Rightarrow> response \<times> 'st" where
  "get_medication S req st = ensureAuthenticated req st (\<lambda>uid.
     case getMedication S st (req_id req) of
       Threw \<Rightarrow> (respond 500 (Error ''Failed to fetch medication''), st)
     | Returned None \<Rightarrow> (respond 404 (Error ''Medication not found''), st)
     | Returned (Some medication) \<Rightarrow>
         if m_userId medication \<noteq> uid
         then (respond 403 (Error ''Unauthorized access to medication''), st)
         else (respond 200 (OfMedication medication), st))"

text \<open>\<open>POST /api/medications\<close>\<close>

definition post_medications :: "zod_env \<Rightarrow> 'st storage \<Rightarrow> request \<Rightarrow> 'st \<Rightarrow> response \<times> 'st" where
  "post_medications L S req st = ensureAuthenticated req st (\<lambda>uid.
     case parse L medicationFormSchema (spread_with (req_body req) ''userId'' (JNum uid)) of
       Inl issues \<Rightarrow> (respond 400 (Issues issues), st)
     | Inr validatedData \<Rightarrow>
         (case createMedication S st validatedData of
            (Threw, st') \<Rightarrow> (respond 500 (Error ''Failed to create medication''), st')
          | (Returned medication, st') \<Rightarrow> (respond 201 (OfMedication medication), st')))"

text \<open>\<open>PUT /api/medications/:id\<close>\<close>

definition put_medication :: "zod_env \<Rightarrow> 'st storage \<Rightarrow> request \<Rightarrow> 'st \<Rightarrow> response \<times> 'st" where
  "put_medication L S req st = ensureAuthenticated req st (\<lambda>uid.
     case getMedication S st (req_id req) of
       Threw \<Rightarrow> (respond 500 (Error ''Failed to update medication''), st)
     | Returned None \<Rightarrow> (respond 404 (Error ''Medication not found''), st)
     | Returned (Some medication) \<Rightarrow>
         if m_userId medication \<noteq> uid
         then (respond 403 (Error ''Unauthorized access to medication''), st)
         else
           (case parse L (partial medicationSchema) (req_body req) of
              Inl issues \<Rightarrow> (respond 400 (Issues issues), st)
            | Inr validatedData \<Rightarrow>
                (case updateMedication S st (req_id req) validatedData of
                   (Threw, st') \<Rightarrow> (respond 500 (Error ''Failed to update medication''), st')
                 | (Returned None, st') \<Rightarrow> (respond 200 OfUndefined, st')
                 | (Returned (Some updatedMedication), st') \<Rightarrow>
                     (respond 200 (OfMedication updatedMedication), st'))))"

text \<open>\<open>DELETE /api/medications/:id\<close>\<close>

definition delete_medication :: "'st storage \<Rightarrow> request \<Rightarrow> 'st \<Rightarrow> response \<times> 'st" where
  "delete_medication S req st = ensureAuthenticated req st (\<lambda>uid.
     case getMedication S st (req_id req) of
       Threw \<Rightarrow> (respond 500 (Error ''Failed to delete medication''), st)
     | Returned None \<Rightarrow> (respond 404 (Error ''Medication not found''), st)
     | Returned (Some medication) \<Rightarrow>
         if m_userId medication \<noteq> uid
         then (respond 403 (Error ''Unauthorized access to medication''), st)
         else
           (case deleteMedication S st (req_id req) of
              (Threw, st') \<Rightarrow> (respond 500 (Error ''Failed to delete medication''), st')
            | (Returned success, st') \<Rightarrow>
                if success then (respond 204 NoBody, st')
                else (respond 500 (Error ''Failed to delete medication''), st')))"

text \<open>\<open>GET /api/medications/:id/reminders\<close>\<close>

definition get_medication_reminders :: "'st storage \<Rightarrow> request \<Rightarrow> 'st \<Rightarrow> response \<times> 'st" where
  "get_medication_reminders S req st = ensureAuthenticated req st (\<lambda>uid.
     case getMedication S st (req_id req) of
       Threw \<Rightarrow> (respond 500 (Error ''Failed to fetch reminders''), st)
     | Returned None \<Rightarrow> (respond 404 (Error ''Medication not found''), st)
     | Returned (Some medication) \<Rightarrow>
         if m_userId medication \<noteq> uid
         then (respond 403 (Error ''Unauthorized access to medication''), st)
         else
           (case getMedicationReminders S st (req_id req) of
              Threw \<Rightarrow> (respond 500 (Error ''Failed to fetch reminders''), st)
            | Returned reminders \<Rightarrow> (respond 200 (OfReminders reminders), st)))"

text \<open>\<open>PUT /api/reminders/:id\<close>\<close>

definition put_reminder :: "'st storage \<Rightarrow> request \<Rightarrow> 'st \<Rightarrow> response \<times> 'st" where
  "put_reminder S req st = ensureAuthenticated req st (\<lambda>uid.
     case (get_prop (req_body req) ''taken'', get_prop (req_body req) ''skipped'') of
       (Returned taken, Returned skipped) \<Rightarrow>
         (case updateMedicationReminder S st (req_id req) taken skipped of
            (Threw, st') \<Rightarrow> (respond 500 (Error ''Failed to update reminder''), st')
          | (Returned None, st') \<Rightarrow> (respond 404 (Error ''Reminder not found''), st')
          | (Returned (Some updatedReminder), st') \<Rightarrow>
              (case getMedication S st' (Num (r_medicationId updatedReminder)) of
                 Threw \<Rightarrow> (respond 500 (Error ''Failed to update reminder''), st')
               | Returned None \<Rightarrow> (respond 403 (Error ''Unauthorized access to reminder''), st')
               | Returned (Some medication) \<Rightarrow>
                   if m_userId medication \<noteq> uid
                   then (respond 403 (Error ''Unauthorized access to reminder''), st')
                   else (respond 200 (OfReminder updatedReminder), st')))
     | _ \<Rightarrow> (respond 500 (Error ''Failed to update reminder''), st))"

text \<open>\<open>GET /api/caregivers\<close>\<close>

definition get_caregivers :: "'st storage \<Rightarrow> request \<Rightarrow> 'st \<Rightarrow> response \<times> 'st" where
  "get_caregivers S req st = ensureAuthenticated req st (\<lambda>uid.
     case getCaregivers S st uid of
       Threw \<Rightarrow> (respond 500 (Error ''Failed to fetch caregivers''), st)
     | Returned cs \<Rightarrow> (respond 200 (OfCaregivers cs), st))"

text \<open>
  \<open>POST /api/caregivers\<close>. \<open>caregiverData\<close> is the parsed form without its
  \<open>confirmPassword\<close>.
\<close>

definition post_caregivers :: "zod_env \<Rightarrow> 'st storage \<Rightarrow> request \<Rightarrow> 'st \<Rightarrow> response \<times> 'st" where
  "post_caregivers L S req st = ensureAuthenticated req st (\<lambda>uid.
     case zparse (caregiverFormSchema L (req_body req)) of
       Inl issues \<Rightarrow> (respond 400 (Issues issues), st)
     | Inr form \<Rightarrow>
         (let caregiverData = filter (\<lambda>(k, v). k \<noteq> ''confirmPassword'') form in
          case getCaregiverByUsername S st (obj_field caregiverData ''username'') of
            Threw \<Rightarrow> (respond 500 (Error ''Failed to create caregiver''), st)
          | Returned (Some existingCaregiver) \<Rightarrow>
              (respond 400 (Error ''Username already exists''), st)
          | Returned None \<Rightarrow>
              (case createCaregiver S st caregiverData of
                 (Threw, st1) \<Rightarrow> (respond 500 (Error ''Failed to create caregiver''), st1)
               | (Returned caregiver, st1) \<Rightarrow>
                   (case get_prop (req_body req) ''accessLevel'' of
                      Threw \<Rightarrow> (respond 500 (Error ''Failed to create caregiver''), st1)
                    | Returned level \<Rightarrow>
                        (case parse L userCaregiverSchema
                                (JObj [(''userId'', JNum uid),
                                       (''caregiverId'', JNum (c_id caregiver)),
                                       (''accessLevel'', js_or level (JStr ''full'')),
                                       (''active'', JBool True)]) of
                           Inl issues \<Rightarrow> (respond 400 (Issues issues), st1)
                         | Inr userCaregiverData \<Rightarrow>
                             (case linkCaregiverToUser S st1 userCaregiverData of
                                (Threw, st2) \<Rightarrow>
                                  (respond 500 (Error ''Failed to create caregiver''), st2)
                              | (Returned userCaregiver, st2) \<Rightarrow>
                                  (respond 201
                                     (OfCaregiverAccess
                                        (with_accessLevel caregiver (uc_accessLevel userCaregiver))),
                                   st2)))))))"

text \<open>\<open>PUT /api/caregivers/:id/access\<close>\<close>

definition put_caregiver_access :: "'st storage \<Rightarrow> request \<Rightarrow> 'st \<Rightarrow> response \<times> 'st" where
  "put_caregiver_access S req st = ensureAuthenticated req st (\<lambda>uid.
     case (get_prop (req_body req) ''accessLevel'', get_prop (req_body req) ''active'') of
       (Returned level, Returned active) \<Rightarrow>
         (case updateCaregiverAccess S st (req_id req) level active of
            (Threw, st') \<Rightarrow> (respond 500 (Error ''Failed to update caregiver access''), st')
          | (Returned None, st') \<Rightarrow> (respond 404 (Error ''Caregiver link not found''), st')
          | (Returned (Some updatedUserCaregiver), st') \<Rightarrow>
              if uc_userId updatedUserCaregiver \<noteq> uid
              then (respond 403 (Error ''Unauthorized access to caregiver''), st')
              else (respond 200 (OfUserCaregiver updatedUserCaregiver), st'))
     | _ \<Rightarrow> (respond 500 (Error ''Failed to update caregiver access''), st))"

section \<open>A store for the gateway\<close>

text \<open>
  Modelled from the spec: the module \<open>storage\<close> (the persistence gateway) is called by
  the routes and is missing from the sources. The specification describes it as CRUD
  operations on the five tables, each entity "created via validated insert, mutated via
  partial updates, deleted only for Medications", with \<open>updateReminder(id, taken,
  skipped)\<close> giving the reminder or nothing, usernames unique and a \<open>userId\<close> that "must
  reference existing User". The store below is the tables as lists of rows and a clock
  for the \<open>defaultNow()\<close> columns. It serves to run the routes on concrete requests; the
  theorems about the routes hold for every implementation.
\<close>

record mem =
  mem_users :: "user list"
  mem_medications :: "medication list"
  mem_reminders :: "reminder list"
  mem_caregivers :: "caregiver list"
  mem_userCaregivers :: "user_caregiver list"
  mem_now :: int

text \<open>
  Modelled from the spec: the \<open>serial\<close> id of a new row, and the columns a validated
  object gives, by type.
\<close>

definition next_id :: "int list \<Rightarrow> int" where
  "next_id ids = fold max ids 0 + 1"

definition as_int :: "json \<Rightarrow> int option" where
  "as_int v = (case v of JNum n \<Rightarrow> Some n | _ \<Rightarrow> None)"

definition as_str :: "json \<Rightarrow> string option" where
  "as_str v = (case v of JStr s \<Rightarrow> Some s | _ \<Rightarrow> None)"

definition as_bool :: "json \<Rightarrow> bool option" where
  "as_bool v = (case v of JBool b \<Rightarrow> Some b | _ \<Rightarrow> None)"

definition as_date :: "json \<Rightarrow> int option" where
  "as_date v = (case v of JDate t \<Rightarrow> Some t | _ \<Rightarrow> None)"

text \<open>
  Modelled from the spec: a column of a partial update. It takes the value the update
  gives it (\<open>None\<close> when the value has the wrong type); a key the update lacks leaves
  the column as it is, and \<open>null\<close> empties a nullable column.
\<close>

definition set_col :: "(json \<Rightarrow> 'a option) \<Rightarrow> object \<Rightarrow> string \<Rightarrow> 'a \<Rightarrow> 'a option" where
  "set_col conv d k old = (if obj_field d k = JUndefined then Some old else conv (obj_field d k))"

definition set_nullable :: "(json \<Rightarrow> 'a option) \<Rightarrow> object \<Rightarrow> string \<Rightarrow> 'a option \<Rightarrow> 'a option option" where
  "set_nullable conv d k old =
     (if obj_field d k = JUndefined then Some old
      else if obj_field d k = JNull then Some None
      else map_option Some (conv (obj_field d k)))"

text \<open>Modelled from the spec: a \<open>userId\<close> "must reference existing User".\<close>

definition user_exists :: "mem \<Rightarrow> int \<Rightarrow> bool" where
  "user_exists st uid = (uid \<in> set (map u_id (mem_users st)))"

text \<open>Modelled from the spec: the medications of one user.\<close>

definition mem_getMedications :: "mem \<Rightarrow> int \<Rightarrow> medication list outcome" where
  "mem_getMedications st uid = Returned (filter (\<lambda>m. m_userId m = uid) (mem_medications st))"

text \<open>Modelled from the spec: the medication of that id, if there is one.\<close>

definition mem_getMedication :: "mem \<Rightarrow> jsnum \<Rightarrow> medication option outcome" where
  "mem_getMedication st i = Returned (find (\<lambda>m. Num (m_id m) = i) (mem_medications st))"

text \<open>
  Modelled from the spec: a validated insert. The row takes the next id, the insert's
  columns and the defaults of the table; an insert that lacks a column that is not null,
  or whose \<open>userId\<close> is no user's, is refused.
\<close>

definition mem_createMedication :: "mem \<Rightarrow> object \<Rightarrow> medication outcome \<times> mem" where
  "mem_createMedication st d =
     (case (as_int (obj_field d ''userId''), as_str (obj_field d ''name''),
            as_str (obj_field d ''dosage''), as_str (obj_field d ''frequency''),
            as_date (obj_field d ''startTime''),
            set_nullable as_str d ''notes'' None, set_nullable as_bool d ''active'' (Some True)) of
        (Some uid, Some n, Some ds, Some f, Some t, Some notes, Some act) \<Rightarrow>
          if user_exists st uid then
            (let m = \<lparr>m_id = next_id (map m_id (mem_medications st)), m_userId = uid, m_name = n,
                      m_dosage = ds, m_frequency = f, m_startTime = t, m_notes = notes,
                      m_active = act, m_createdAt = Some (mem_now st)\<rparr>
             in (Returned m, st\<lparr>mem_medications := mem_medications st @ [m]\<rparr>))
          else (Threw, st)
      | _ \<Rightarrow> (Threw, st))"

text \<open>
  Modelled from the spec: a partial update. The columns the update names are replaced,
  the others kept; nothing is returned when no medication has that id.
\<close>

definition patch_medication :: "object \<Rightarrow> medication \<Rightarrow> medication option" where
  "patch_medication d m =
     (case (set_col as_int d ''userId'' (m_userId m), set_col as_str d ''name'' (m_name m),
            set_col as_str d ''dosage'' (m_dosage m), set_col as_str d ''frequency'' (m_frequency m),
            set_col as_date d ''startTime'' (m_startTime m),
            set_nullable as_str d ''notes'' (m_notes m),
            set_nullable as_bool d ''active'' (m_active m)) of
        (Some uid, Some n, Some ds, Some f, Some t, Some notes, Some act) \<Rightarrow>
          Some (m\<lparr>m_userId := uid, m_name := n, m_dosage := ds, m_frequency := f,
                  m_startTime := t, m_notes := notes, m_active := act\<rparr>)
      | _ \<Rightarrow> None)"

definition mem_updateMedication :: "mem \<Rightarrow> jsnum \<Rightarrow> object \<Rightarrow> medication option outcome \<times> mem" where
  "mem_updateMedication st i d =
     (case find (\<lambda>m. Num (m_id m) = i) (mem_medications st) of
        None \<Rightarrow> (Returned None, st)
      | Some m \<Rightarrow>
          (case patch_medication d m of
             None \<Rightarrow> (Threw, st)
           | Some m' \<Rightarrow>
               if user_exists st (m_userId m') then
                 (Returned (Some m'),
                  st\<lparr>mem_medications :=
                        map (\<lambda>x. if m_id x = m_id m then m' else x) (mem_medications st)\<rparr>)
               else (Threw, st)))"

text \<open>
  Modelled from the spec: deleting a medication; its reminders go with it (the cascade
  is "handled by the store"). The result tells whether a row was deleted.
\<close>

definition mem_deleteMedication :: "mem \<Rightarrow> jsnum \<Rightarrow> bool outcome \<times> mem" where
  "mem_deleteMedication st i =
     (case find (\<lambda>m. Num (m_id m) = i) (mem_medications st) of
        None \<Rightarrow> (Returned False, st)
      | Some m \<Rightarrow>
          (Returned True,
           st\<lparr>mem_medications := filter (\<lambda>x. m_id x \<noteq> m_id m) (mem_medications st),
              mem_reminders := filter (\<lambda>r. r_medicationId r \<noteq> m_id m) (mem_reminders st)\<rparr>))"

text \<open>Modelled from the spec: the reminders of one medication.\<close>

definition mem_getMedicationReminders :: "mem \<Rightarrow> jsnum \<Rightarrow> reminder list outcome" where
  "mem_getMedicationReminders st i =
     Returned (filter (\<lambda>r. Num (r_medicationId r) = i) (mem_reminders st))"

text \<open>
  Modelled from the spec: \<open>updateReminder(id, taken, skipped)\<close> gives the updated
  reminder, or nothing when no reminder has that id. \<open>taken\<close> and \<open>skipped\<close> are set
  to the booleans given, a flag that is \<open>undefined\<close> is left as it is, \<open>null\<close> empties
  it, and any other value is refused. The specification gives no rule for \<open>takenAt\<close>,
  which is left as it is.
\<close>

definition mem_updateMedicationReminder ::
    "mem \<Rightarrow> jsnum \<Rightarrow> json \<Rightarrow> json \<Rightarrow> reminder option outcome \<times> mem" where
  "mem_updateMedicationReminder st i taken skipped =
     (case find (\<lambda>r. Num (r_id r) = i) (mem_reminders st) of
        None \<Rightarrow> (Returned None, st)
      | Some r \<Rightarrow>
          (case (set_nullable as_bool [(''taken'', taken)] ''taken'' (r_taken r),
                 set_nullable as_bool [(''skipped'', skipped)] ''skipped'' (r_skipped r)) of
             (Some t, Some s) \<Rightarrow>
               (let r' = r\<lparr>r_taken := t, r_skipped := s\<rparr>
                in (Returned (Some r'),
                    st\<lparr>mem_reminders :=
                          map (\<lambda>x. if r_id x = r_id r then r' else x) (mem_reminders st)\<rparr>))
           | _ \<Rightarrow> (Threw, st)))"

text \<open>Modelled from the spec: the caregivers linked to one user.\<close>

definition mem_getCaregivers :: "mem \<Rightarrow> int \<Rightarrow> caregiver list outcome" where
  "mem_getCaregivers st uid =
     Returned (filter (\<lambda>c. c_id c \<in> set (map uc_caregiverId
                                            (filter (\<lambda>l. uc_userId l = uid) (mem_userCaregivers st))))
                 (mem_caregivers st))"

text \<open>Modelled from the spec: the caregiver of that username, if there is one.\<close>

definition mem_getCaregiverByUsername :: "mem \<Rightarrow> json \<Rightarrow> caregiver option outcome" where
  "mem_getCaregiverByUsername st name =
     Returned (find (\<lambda>c. JStr (c_username c) = name) (mem_caregivers st))"

text \<open>
  Modelled from the spec: a validated insert of a caregiver; the username is unique
  across caregivers. The password is stored as the insert gives it.
\<close>

definition mem_createCaregiver :: "mem \<Rightarrow> object \<Rightarrow> caregiver outcome \<times> mem" where
  "mem_createCaregiver st d =
     (case (as_str (obj_field d ''username''), as_str (obj_field d ''password''),
            as_str (obj_field d ''fullName''), as_str (obj_field d ''email''),
            set_nullable as_str d ''phone'' None, set_nullable as_str d ''relation'' None) of
        (Some un, Some pw, Some fn, Some em, Some ph, Some rel) \<Rightarrow>
          if un \<in> set (map c_username (mem_caregivers st)) then (Threw, st)
          else
            (let c = \<lparr>c_id = next_id (map c_id (mem_caregivers st)), c_username = un,
                      c_password = pw, c_fullName = fn, c_phone = ph, c_email = em,
                      c_relation = rel, c_createdAt = Some (mem_now st)\<rparr>
             in (Returned c, st\<lparr>mem_caregivers := mem_caregivers st @ [c]\<rparr>))
      | _ \<Rightarrow> (Threw, st))"

text \<open>
  Modelled from the spec: a validated insert of the join record of a user and a
  caregiver; both must exist. \<open>accessLevel\<close> has the table's default \<open>full\<close> and
  \<open>active\<close> the default \<open>true\<close>.
\<close>

definition mem_linkCaregiverToUser :: "mem \<Rightarrow> object \<Rightarrow> user_caregiver outcome \<times> mem" where
  "mem_linkCaregiverToUser st d =
     (case (as_int (obj_field d ''userId''), as_int (obj_field d ''caregiverId''),
            set_col as_str d ''accessLevel'' ''full'',
            set_nullable as_bool d ''active'' (Some True)) of
        (Some uid, Some cid, Some level, Some act) \<Rightarrow>
          if user_exists st uid \<and> cid \<in> set (map c_id (mem_caregivers st)) then
            (let l = \<lparr>uc_id = next_id (map uc_id (mem_userCaregivers st)), uc_userId = uid,
                      uc_caregiverId = cid, uc_accessLevel = level, uc_active = act,
                      uc_createdAt = Some (mem_now st)\<rparr>
             in (Returned l, st\<lparr>mem_userCaregivers := mem_userCaregivers st @ [l]\<rparr>))
          else (Threw, st)
      | _ \<Rightarrow> (Threw, st))"

text \<open>
  Modelled from the spec: a partial update of the join record of that id, giving the
  updated record, or nothing when there is none.
\<close>

definition mem_updateCaregiverAccess ::
    "mem \<Rightarrow> jsnum \<Rightarrow> json \<Rightarrow> json \<Rightarrow> user_caregiver option outcome \<times> mem" where
  "mem_updateCaregiverAccess st i level active =
     (case find (\<lambda>l. Num (uc_id l) = i) (mem_userCaregivers st) of
        None \<Rightarrow> (Returned None, st)
      | Some l \<Rightarrow>
          (case (set_col as_str [(''accessLevel'', level)] ''accessLevel'' (uc_accessLevel l),
                 set_nullable as_bool [(''active'', active)] ''active'' (uc_active l)) of
             (Some lv, Some act) \<Rightarrow>
               (let l' = l\<lparr>uc_accessLevel := lv, uc_active := act\<rparr>
                in (Returned (Some l'),
                    st\<lparr>mem_userCaregivers :=
                          map (\<lambda>x. if uc_id x = uc_id l then l' else x) (mem_userCaregivers st)\<rparr>))
           | _ \<Rightarrow> (Threw, st)))"

text \<open>
  Modelled from the spec: a partial update of the profile columns of a user, giving
  the updated user, or nothing when there is none.
\<close>

definition mem_updateUserProfile :: "mem \<Rightarrow> int \<Rightarrow> json \<Rightarrow> user option outcome \<times> mem" where
  "mem_updateUserProfile st uid b =
     (case find (\<lambda>u. u_id u = uid) (mem_users st) of
        None \<Rightarrow> (Returned None, st)
      | Some u \<Rightarrow>
          (case (set_nullable as_str (spread b) ''fullName'' (u_fullName u),
                 set_nullable as_int (spread b) ''age'' (u_age u),
                 set_nullable as_str (spread b) ''disease'' (u_disease u),
                 set_nullable as_str (spread b) ''city'' (u_city u)) of
             (Some fn, Some ag, Some dis, Some ct) \<Rightarrow>
               (let u' = u\<lparr>u_fullName := fn, u_age := ag, u_disease := dis, u_city := ct\<rparr>
                in (Returned (Some u'),
                    st\<lparr>mem_users := map (\<lambda>x. if u_id x = uid then u' else x) (mem_users st)\<rparr>))
           | _ \<Rightarrow> (Threw, st)))"

text \<open>Modelled from the spec: the gateway over this store.\<close>

definition mem_storage :: "mem storage" where
  "mem_storage =
     \<lparr>updateUserProfile = mem_updateUserProfile,
      getMedications = mem_getMedications,
      getMedication = mem_getMedication,
      createMedication = mem_createMedication,
      updateMedication = mem_updateMedication,
      deleteMedication = mem_deleteMedication,
      getMedicationReminders = mem_getMedicationReminders,
      updateMedicationReminder = mem_updateMedicationReminder,
      getCaregivers = mem_getCaregivers,
      getCaregiverByUsername = mem_getCaregiverByUsername,
      createCaregiver = mem_createCaregiver,
      linkCaregiverToUser = mem_linkCaregiverToUser,
      updateCaregiverAccess = mem_updateCaregiverAccess\<rparr>"

section \<open>Auxiliary notions and a sample store\<close>

text \<open>A type that can change the value it parses: only \<open>z.coerce.date()\<close> does.\<close>

fun coerces :: "ztype \<Rightarrow> bool" where
  "coerces ZCoerceDate = True"
| "coerces (ZNullable t) = coerces t"
| "coerces (ZOptional t) = coerces t"
| "coerces t = False"

text \<open>
  A library environment and a store to run the routes on: two users, a medication of
  the first with one reminder, and a caregiver linked to the first user.
\<close>

definition sample_env :: zod_env where
  "sample_env =
     \<lparr>is_email = (\<lambda>s. CHR ''@'' \<in> set s),
      new_Date = (\<lambda>v. case v of JNum n \<Rightarrow> Some n | _ \<Rightarrow> None),
      integer_column = (\<lambda>n. - 2147483648 \<le> n \<and> n \<le> 2147483647)\<rparr>"

definition alice :: user where
  "alice = \<lparr>u_id = 1, u_username = ''alice'', u_password = ''#a'', u_fullName = None,
            u_age = None, u_disease = None, u_city = None, u_profileComplete = Some False\<rparr>"

definition bob :: user where
  "bob = \<lparr>u_id = 2, u_username = ''bob'', u_password = ''#b'', u_fullName = None,
          u_age = None, u_disease = None, u_city = None, u_profileComplete = Some False\<rparr>"

definition aspirin :: medication where
  "aspirin = \<lparr>m_id = 1, m_userId = 1, m_name = ''Aspirin'', m_dosage = ''100mg'',
              m_frequency = ''daily'', m_startTime = 0, m_notes = None, m_active = Some True,
              m_createdAt = Some 0\<rparr>"

definition dose :: reminder where
  "dose = \<lparr>r_id = 1, r_medicationId = 1, r_reminderTime = 10, r_taken = Some False,
           r_takenAt = None, r_skipped = Some False\<rparr>"

definition carol :: caregiver where
  "carol = \<lparr>c_id = 1, c_username = ''carol'', c_password = ''#c'', c_fullName = ''Carol'',
            c_phone = None, c_email = ''carol@example.org'', c_relation = None,
            c_createdAt = Some 0\<rparr>"

definition carol_link :: user_caregiver where
  "carol_link = \<lparr>uc_id = 1, uc_userId = 1, uc_caregiverId = 1, uc_accessLevel = ''read-only'',
                 uc_active = Some True, uc_createdAt = Some 0\<rparr>"

definition sample_store :: mem where
  "sample_store =
     \<lparr>mem_users = [alice, bob], mem_medications = [aspirin], mem_reminders = [dose],
      mem_caregivers = [carol], mem_userCaregivers = [carol_link], mem_now = 100\<rparr>"

text \<open>A caregiver form, with its username, its \<open>confirmPassword\<close> and its \<open>accessLevel\<close>.\<close>

definition caregiver_form :: "string \<Rightarrow> string \<Rightarrow> json \<Rightarrow> json" where
  "caregiver_form name confirm level =
     JObj [(''username'', JStr name), (''password'', JStr ''pass-word''),
           (''confirmPassword'', JStr confirm), (''fullName'', JStr ''Dave''),
           (''email'', JStr ''dave@example.org''), (''accessLevel'', level)]"

definition dave :: caregiver where
  "dave = \<lparr>c_id = 2, c_username = ''dave'', c_password = ''pass-word'', c_fullName = ''Dave'',
           c_phone = None, c_email = ''dave@example.org'', c_relation = None,
           c_createdAt = Some 100\<rparr>"

text \<open>A medication form without a \<open>userId\<close>, and the row the sample store makes of it.\<close>

definition ibuprofen_form :: "object" where
  "ibuprofen_form = [(''name'', JStr ''Ibuprofen''), (''dosage'', JStr ''200mg''),
       (''frequency'', JStr ''daily''), (''startTime'', JNum 50)]"

definition ibuprofen :: medication where
  "ibuprofen = \<lparr>m_id = 2, m_userId = 1, m_name = ''Ibuprofen'', m_dosage = ''200mg'',
            m_frequency = ''daily'', m_startTime = 50, m_notes = None, m_active = Some True,
            m_createdAt = Some 100\<rparr>"

text \<open>The request of an authenticated user.\<close>

definition authenticated :: "int \<Rightarrow> jsnum \<Rightarrow> json \<Rightarrow> request" where
  "authenticated uid i b = \<lparr>req_user = Some uid, req_id = i, req_body = b\<rparr>"

section \<open>Properties of the schemas\<close>

text \<open>Parsing that is aborted has raised an issue, so \<open>parse\<close> throws a non-empty list.\<close>

lemma parse_type_aborted:
  "snd (parse_type L p t v) = None \<Longrightarrow> fst (parse_type L p t v) \<noteq> []"
  by (induction t) (auto split: json.splits option.splits if_splits)

lemma parse_shape_aborted:
  "snd (parse_shape L sh inp) = None \<Longrightarrow> fst (parse_shape L sh inp) \<noteq> []"
proof (induction sh)
  case Nil
  then show ?case by simp
next
  case (Cons a sh)
  obtain k t where a: "a = (k, t)" by (cases a)
  show ?case
  proof (cases "snd (parse_type L [k] t (obj_field inp k))")
    case None
    then show ?thesis using parse_type_aborted[of L "[k]" t] a by (simp add: Let_def)
  next
    case (Some v)
    with Cons a show ?thesis by (auto simp: Let_def split: option.splits)
  qed
qed

text \<open>A type that does not coerce hands on the value it was given.\<close>

lemma parse_type_value:
  "\<not> coerces t \<Longrightarrow> snd (parse_type L p t v) = Some w \<Longrightarrow> w = v"
  by (induction t) (auto split: json.splits option.splits if_splits)

text \<open>The parsed object has the keys of the shape only, each with its parsed value.\<close>

lemma parse_shape_keys:
  "snd (parse_shape L sh inp) = Some out \<Longrightarrow> k \<notin> fst ` set sh \<Longrightarrow> map_of out k = None"
proof (induction sh arbitrary: out)
  case Nil
  then show ?case by simp
next
  case (Cons a sh)
  obtain k' t where a: "a = (k', t)" by (cases a)
  from Cons.prems a obtain v out' where
    v: "snd (parse_type L [k'] t (obj_field inp k')) = Some v" and
    out': "snd (parse_shape L sh inp) = Some out'" and
    out: "out = (if v = JUndefined then out' else (k', v) # out')"
    by (auto simp: Let_def split: option.splits)
  from Cons.prems a have "k \<noteq> k'" "k \<notin> fst ` set sh" by auto
  with Cons.IH[OF out'] out show ?case by simp
qed

lemma parse_shape_field:
  "snd (parse_shape L sh inp) = Some out \<Longrightarrow> distinct (map fst sh) \<Longrightarrow> (k, t) \<in> set sh \<Longrightarrow>
   snd (parse_type L [k] t (obj_field inp k)) = Some (obj_field out k)"
proof (induction sh arbitrary: out)
  case Nil
  then show ?case by simp
next
  case (Cons a sh)
  obtain k' t' where a: "a = (k', t')" by (cases a)
  from Cons.prems(1) a obtain v out' where
    v: "snd (parse_type L [k'] t' (obj_field inp k')) = Some v" and
    out': "snd (parse_shape L sh inp) = Some out'" and
    out: "out = (if v = JUndefined then out' else (k', v) # out')"
    by (auto simp: Let_def split: option.splits)
  show ?case
  proof (cases "(k, t) = (k', t')")
    case True
    from Cons.prems(2) a have "k' \<notin> fst ` set sh" by simp
    from parse_shape_keys[OF out' this] have "map_of out' k' = None" .
    with True v out show ?thesis by (simp add: obj_field_def)
  next
    case False
    with Cons.prems(3) a have mem: "(k, t) \<in> set sh" by auto
    with Cons.prems(2) a have "k \<noteq> k'" by force
    moreover from Cons.prems(2) have "distinct (map fst sh)" by simp
    ultimately show ?thesis using Cons.IH[OF out' _ mem] out by (simp add: obj_field_def)
  qed
qed

text \<open>The shapes the schemas of \<open>schema.ts\<close> come to.\<close>

lemma caregiverFormShape_eq:
  "caregiverFormShape =
    [(''username'', ZString []),
     (''password'', ZString [MinLength 8 ''Password must be at least 8 characters'']),
     (''fullName'', ZString []),
     (''phone'', ZOptional (ZNullable (ZString []))),
     (''email'', ZString [Email ''Please enter a valid email address'']),
     (''relation'', ZOptional (ZNullable (ZString []))),
     (''confirmPassword'', ZString [])]"
  by (simp add: caregiverFormShape_def caregiverSchema_def createInsertSchema_def caregivers_def
      omit_def insert_type_def primaryKey_def serial_def unique_def notNull_def text_col_def
      with_default_def timestamp_def)

lemma medicationFormSchema_eq:
  "medicationFormSchema =
    [(''userId'', ZInteger), (''name'', ZString []), (''dosage'', ZString []),
     (''frequency'', ZEnum [''daily'', ''twice_daily'', ''three_times_daily'', ''four_times_daily'',
                            ''weekly'', ''as_needed'', ''other'']),
     (''startTime'', ZCoerceDate),
     (''notes'', ZOptional (ZNullable (ZString []))),
     (''active'', ZOptional (ZNullable ZBoolean))]"
  by (simp add: medicationFormSchema_def medicationSchema_def createInsertSchema_def medications_def
      omit_def insert_type_def primaryKey_def serial_def references_def notNull_def text_col_def
      with_default_def timestamp_def integer_def boolean_def frequencyEnum_def pgEnum_def)

lemma partial_medicationSchema_eq:
  "partial medicationSchema =
    [(''userId'', ZOptional ZInteger), (''name'', ZOptional (ZString [])),
     (''dosage'', ZOptional (ZString [])),
     (''frequency'', ZOptional (ZEnum [''daily'', ''twice_daily'', ''three_times_daily'',
                                       ''four_times_daily'', ''weekly'', ''as_needed'', ''other''])),
     (''startTime'', ZOptional ZDate),
     (''notes'', ZOptional (ZOptional (ZNullable (ZString [])))),
     (''active'', ZOptional (ZOptional (ZNullable ZBoolean)))]"
  by (simp add: partial_def medicationSchema_def createInsertSchema_def medications_def
      omit_def insert_type_def primaryKey_def serial_def references_def notNull_def text_col_def
      with_default_def timestamp_def integer_def boolean_def frequencyEnum_def pgEnum_def)

lemma userCaregiverSchema_eq:
  "userCaregiverSchema =
    [(''userId'', ZInteger), (''caregiverId'', ZInteger),
     (''accessLevel'', ZOptional (ZString [])),
     (''active'', ZOptional (ZNullable ZBoolean))]"
  by (simp add: userCaregiverSchema_def createInsertSchema_def userCaregivers_def
      omit_def insert_type_def primaryKey_def serial_def references_def notNull_def text_col_def
      with_default_def timestamp_def integer_def boolean_def)

text \<open>
  A key of the shape whose type does not coerce has, in the parsed object, the value
  it has in the input.
\<close>

lemma parse_shape_same:
  assumes "snd (parse_shape L sh inp) = Some out" "distinct (map fst sh)" "(k, t) \<in> set sh"
      "\<not> coerces t"
  shows "obj_field out k = obj_field inp k"
  using parse_shape_field [OF assms(1-3)] parse_type_value [OF assms(4)] by metis

lemma obj_field_filter:
  "k \<noteq> k' \<Longrightarrow> obj_field (filter (\<lambda>(x, v). x \<noteq> k') d) k = obj_field d k"
  by (induction d) (auto simp: obj_field_def)

lemma zparse_Inr: "zparse r = Inr x \<Longrightarrow> r = ([], Some x)"
  by (cases r) (auto simp: zparse_def split: list.splits option.splits)

lemma z_object_Some: "snd (z_object L sh v) = Some out \<Longrightarrow> \<exists>kvs. v = JObj kvs \<and> snd (parse_shape L sh kvs) = Some out"
  by (cases v) (auto simp: z_object_def)

lemma caregiver_form_parsed:
  assumes "zparse (caregiverFormSchema L b) = Inr form"
  shows "\<exists>kvs. b = JObj kvs \<and> snd (parse_shape L caregiverFormShape kvs) = Some form"
proof -
  from zparse_Inr [OF assms] have r: "caregiverFormSchema L b = ([], Some form)" .
  then have "snd (z_object L caregiverFormShape b) = Some form"
    by (auto simp: caregiverFormSchema_def refine_def split: option.splits if_splits)
  then show ?thesis by (rule z_object_Some)
qed

lemma caregiver_form_field:
  assumes "zparse (caregiverFormSchema L (JObj kvs)) = Inr form"
      and "(k, t) \<in> set caregiverFormShape"
  shows "obj_field form k = obj_field kvs k"
proof -
  from caregiver_form_parsed [OF assms(1)]
  have p: "snd (parse_shape L caregiverFormShape kvs) = Some form" by simp
  have d: "distinct (map fst caregiverFormShape)" by (simp add: caregiverFormShape_eq)
  from assms(2) have "\<not> coerces t" by (auto simp: caregiverFormShape_eq)
  from parse_shape_same [OF p d assms(2) this] show ?thesis .
qed

lemma parse_object_field:
  assumes "parse L sh (JObj kvs) = Inr data" "distinct (map fst sh)" "(k, t) \<in> set sh" "\<not> coerces t"
  shows "obj_field data k = obj_field kvs k"
proof -
  from assms(1) have "z_object L sh (JObj kvs) = ([], Some data)"
    unfolding parse_def by (rule zparse_Inr)
  then have "snd (parse_shape L sh kvs) = Some data" by (simp add: z_object_def)
  from parse_shape_same [OF this assms(2-4)] show ?thesis .
qed

text \<open>
  Parsing reads the input through the keys of the shape only; so a \<open>userId\<close> that
  the body supplies is of no account once \<open>{...body, userId: x}\<close> has replaced it.
\<close>

lemma parse_shape_cong:
  "(\<And>k. k \<in> fst ` set sh \<Longrightarrow> obj_field a k = obj_field b k) \<Longrightarrow>
   parse_shape L sh a = parse_shape L sh b"
proof (induction sh)
  case Nil
  then show ?case by simp
next
  case (Cons x sh)
  obtain k t where x: "x = (k, t)" by (cases x)
  from Cons.prems x have "obj_field a k = obj_field b k" by simp
  moreover from Cons have "parse_shape L sh a = parse_shape L sh b" by simp
  ultimately show ?case using x by simp
qed

lemma overwritten_userId_parse:
  "parse L sh (spread_with b ''userId'' x)
     = parse L sh (spread_with (JObj (filter (\<lambda>(k, v). k \<noteq> ''userId'') (spread b))) ''userId'' x)"
proof -
  have "obj_field ((''userId'', x) # spread b) k
      = obj_field ((''userId'', x) # filter (\<lambda>(k, v). k \<noteq> ''userId'') (spread b)) k" for k
  proof (cases "k = ''userId''")
    case True
    then show ?thesis by (simp add: obj_field_def)
  next
    case False
    from obj_field_filter [OF this, of "spread b"] False show ?thesis
      by (simp add: obj_field_def)
  qed
  then have "parse_shape L sh ((''userId'', x) # spread b)
      = parse_shape L sh ((''userId'', x) # filter (\<lambda>(k, v). k \<noteq> ''userId'') (spread b))"
    by (intro parse_shape_cong)
  then show ?thesis by (simp add: parse_def z_object_def spread_with_def)
qed

text \<open>The definitions that running a route on a concrete request unfolds.\<close>

lemmas route_defs = ensureAuthenticated_def respond_def authenticated_def
lemmas mem_defs = mem_storage_def mem_getMedications_def mem_getMedication_def
  mem_createMedication_def patch_medication_def mem_updateMedication_def mem_deleteMedication_def
  mem_getMedicationReminders_def mem_updateMedicationReminder_def mem_getCaregivers_def
  mem_getCaregiverByUsername_def mem_createCaregiver_def mem_linkCaregiverToUser_def
  mem_updateCaregiverAccess_def mem_updateUserProfile_def next_id_def as_int_def as_str_def
  as_bool_def as_date_def set_col_def set_nullable_def user_exists_def obj_field_def
lemmas sample_defs = sample_env_def sample_store_def alice_def bob_def aspirin_def dose_def
  carol_def carol_link_def caregiver_form_def dave_def
lemmas zod_defs = parse_def zparse_def z_object_def refine_def caregiverFormSchema_def
  caregiverFormShape_eq medicationFormSchema_eq partial_medicationSchema_eq userCaregiverSchema_eq
  spread_with_def js_or_def Let_def with_accessLevel_def caregiver.extend_def caregiver_with_access.fields_def

section \<open>Properties of the routes\<close>

text \<open>
  What a \<open>POST /api/caregivers\<close> that answers 201 has done: the form was an object
  and parsed, the caregiver was created from the form without its \<open>confirmPassword\<close>,
  the join record was parsed and inserted, and the answer is the caregiver with the
  join record's \<open>accessLevel\<close>.
\<close>

lemma post_caregivers_created:
  assumes "req_user req = Some uid"
      and "post_caregivers L S req st = (res, st')"
      and "status res = 201"
  shows "\<exists>kvs form c st1 data uc.
           req_body req = JObj kvs
         \<and> zparse (caregiverFormSchema L (JObj kvs)) = Inr form
         \<and> createCaregiver S st (filter (\<lambda>(k, v). k \<noteq> ''confirmPassword'') form) = (Returned c, st1)
         \<and> parse L userCaregiverSchema
              (JObj [(''userId'', JNum uid), (''caregiverId'', JNum (c_id c)),
                     (''accessLevel'', js_or (obj_field kvs ''accessLevel'') (JStr ''full'')),
                     (''active'', JBool True)]) = Inr data
         \<and> linkCaregiverToUser S st1 data = (Returned uc, st')
         \<and> res = respond 201 (OfCaregiverAccess (with_accessLevel c (uc_accessLevel uc)))"
proof (cases "zparse (caregiverFormSchema L (req_body req))")
  case (Inl issues)
  with assms show ?thesis
    by (auto simp: post_caregivers_def ensureAuthenticated_def respond_def)
next
  case (Inr form)
  from caregiver_form_parsed [OF Inr] obtain kvs where b: "req_body req = JObj kvs" by blast
  from assms Inr b show ?thesis
    by (auto simp: post_caregivers_def ensureAuthenticated_def respond_def Let_def
        split: outcome.splits option.splits sum.splits prod.splits)
qed

text \<open>
  C8. A medication that exists and belongs to another user is not returned:
  \<open>GET /api/medications/:id\<close> answers the authenticated requester with 403 and the
  error message, whatever store the gateway stands on.
\<close>

theorem get_medication_forbidden:
  assumes "req_user req = Some uid"
      and "getMedication S st (req_id req) = Returned (Some m)"
      and "m_userId m \<noteq> uid"
  shows "get_medication S req st = (respond 403 (Error ''Unauthorized access to medication''), st)"
  using assms by (simp add: get_medication_def ensureAuthenticated_def)

theorem get_medication_forbidden_witness:
  "req_user (authenticated 2 (Num 1) JUndefined) = Some 2
   \<and> getMedication mem_storage sample_store (req_id (authenticated 2 (Num 1) JUndefined))
       = Returned (Some aspirin)
   \<and> m_userId aspirin \<noteq> 2
   \<and> get_medication mem_storage (authenticated 2 (Num 1) JUndefined) sample_store
       = (respond 403 (Error ''Unauthorized access to medication''), sample_store)"
  using get_medication_forbidden [of "authenticated 2 (Num 1) JUndefined" 2
      mem_storage sample_store aspirin]
  by (simp add: authenticated_def mem_storage_def mem_getMedication_def sample_store_def aspirin_def)

text \<open>
  C9. An id under which the store finds nothing gives 404 on each route that takes an
  id, for an authenticated user: the four medication routes when no medication has the
  id, \<open>PUT /api/reminders/:id\<close> when no reminder has it, and
  \<open>PUT /api/caregivers/:id/access\<close> when no caregiver link has it. The two \<open>PUT\<close>
  routes read properties of the body first, so the body is one the body parser left
  (not \<open>undefined\<close> or \<open>null\<close>).
\<close>

theorem missing_id_not_found:
  assumes "req_user req = Some uid"
  shows "(getMedication S st (req_id req) = Returned None \<longrightarrow>
            status (fst (get_medication S req st)) = 404
          \<and> status (fst (put_medication L S req st)) = 404
          \<and> status (fst (delete_medication S req st)) = 404
          \<and> status (fst (get_medication_reminders S req st)) = 404)
       \<and> (req_body req \<noteq> JUndefined \<and> req_body req \<noteq> JNull
          \<and> (\<forall>taken skipped. fst (updateMedicationReminder S st (req_id req) taken skipped) = Returned None) \<longrightarrow>
            status (fst (put_reminder S req st)) = 404)
       \<and> (req_body req \<noteq> JUndefined \<and> req_body req \<noteq> JNull
          \<and> (\<forall>level active. fst (updateCaregiverAccess S st (req_id req) level active) = Returned None) \<longrightarrow>
            status (fst (put_caregiver_access S req st)) = 404)"
proof (intro conjI impI)
  assume "getMedication S st (req_id req) = Returned None"
  with assms show "status (fst (get_medication S req st)) = 404"
    "status (fst (put_medication L S req st)) = 404"
    "status (fst (delete_medication S req st)) = 404"
    "status (fst (get_medication_reminders S req st)) = 404"
    by (simp_all add: get_medication_def put_medication_def delete_medication_def
        get_medication_reminders_def ensureAuthenticated_def respond_def)
next
  assume a: "req_body req \<noteq> JUndefined \<and> req_body req \<noteq> JNull
          \<and> (\<forall>taken skipped. fst (updateMedicationReminder S st (req_id req) taken skipped) = Returned None)"
  then obtain t s where p: "get_prop (req_body req) ''taken'' = Returned t"
      "get_prop (req_body req) ''skipped'' = Returned s"
    by (cases "req_body req") auto
  from a have "fst (updateMedicationReminder S st (req_id req) t s) = Returned None" by blast
  then obtain st' where "updateMedicationReminder S st (req_id req) t s = (Returned None, st')"
    by (cases "updateMedicationReminder S st (req_id req) t s") auto
  with assms p show "status (fst (put_reminder S req st)) = 404"
    by (simp add: put_reminder_def ensureAuthenticated_def respond_def)
next
  assume a: "req_body req \<noteq> JUndefined \<and> req_body req \<noteq> JNull
          \<and> (\<forall>level active. fst (updateCaregiverAccess S st (req_id req) level active) = Returned None)"
  then obtain l ac where p: "get_prop (req_body req) ''accessLevel'' = Returned l"
      "get_prop (req_body req) ''active'' = Returned ac"
    by (cases "req_body req") auto
  from a have "fst (updateCaregiverAccess S st (req_id req) l ac) = Returned None" by blast
  then obtain st' where "updateCaregiverAccess S st (req_id req) l ac = (Returned None, st')"
    by (cases "updateCaregiverAccess S st (req_id req) l ac") auto
  with assms p show "status (fst (put_caregiver_access S req st)) = 404"
    by (simp add: put_caregiver_access_def ensureAuthenticated_def respond_def)
qed

theorem missing_id_not_found_witness:
  "req_user (authenticated 1 (Num 7) (JObj [])) = Some 1
   \<and> getMedication mem_storage sample_store (req_id (authenticated 1 (Num 7) (JObj []))) = Returned None
   \<and> req_body (authenticated 1 (Num 7) (JObj [])) \<noteq> JUndefined
   \<and> req_body (authenticated 1 (Num 7) (JObj [])) \<noteq> JNull
   \<and> (\<forall>taken skipped. fst (updateMedicationReminder mem_storage sample_store
         (req_id (authenticated 1 (Num 7) (JObj []))) taken skipped) = Returned None)
   \<and> (\<forall>level active. fst (updateCaregiverAccess mem_storage sample_store
         (req_id (authenticated 1 (Num 7) (JObj []))) level active) = Returned None)
   \<and> status (fst (get_medication mem_storage (authenticated 1 (Num 7) (JObj [])) sample_store)) = 404
   \<and> status (fst (put_medication sample_env mem_storage (authenticated 1 (Num 7) (JObj [])) sample_store)) = 404
   \<and> status (fst (delete_medication mem_storage (authenticated 1 (Num 7) (JObj [])) sample_store)) = 404
   \<and> status (fst (get_medication_reminders mem_storage (authenticated 1 (Num 7) (JObj [])) sample_store)) = 404
   \<and> status (fst (put_reminder mem_storage (authenticated 1 (Num 7) (JObj [])) sample_store)) = 404
   \<and> status (fst (put_caregiver_access mem_storage (authenticated 1 (Num 7) (JObj [])) sample_store)) = 404"
proof -
  have u: "req_user (authenticated 1 (Num 7) (JObj [])) = Some 1"
    by (simp add: authenticated_def)
  have facts: "getMedication mem_storage sample_store (req_id (authenticated 1 (Num 7) (JObj []))) = Returned None"
    "req_body (authenticated 1 (Num 7) (JObj [])) \<noteq> JUndefined"
    "req_body (authenticated 1 (Num 7) (JObj [])) \<noteq> JNull"
    "\<forall>taken skipped. fst (updateMedicationReminder mem_storage sample_store
         (req_id (authenticated 1 (Num 7) (JObj []))) taken skipped) = Returned None"
    "\<forall>level active. fst (updateCaregiverAccess mem_storage sample_store
         (req_id (authenticated 1 (Num 7) (JObj []))) level active) = Returned None"
    by (simp_all add: authenticated_def mem_storage_def mem_getMedication_def
        mem_updateMedicationReminder_def mem_updateCaregiverAccess_def sample_store_def
        aspirin_def dose_def carol_link_def)
  from missing_id_not_found [OF u, of mem_storage sample_store sample_env] u facts
  show ?thesis by simp
qed

text \<open>
  C3. A \<open>POST /api/caregivers\<close> of an authenticated user whose \<open>password\<close> differs
  from its \<open>confirmPassword\<close> is answered 400 with a non-empty list of validation
  issues, and the store is left as it was: no caregiver and no link is created,
  whatever the storage implementation.
\<close>

theorem post_caregivers_password_mismatch:
  assumes "req_user req = Some uid"
      and "get_prop (req_body req) ''password'' \<noteq> get_prop (req_body req) ''confirmPassword''"
  shows "\<exists>issues. issues \<noteq> []
           \<and> post_caregivers L S req st = (respond 400 (Issues issues), st)"
proof -
  from assms(2) obtain kvs where b: "req_body req = JObj kvs"
    and ne: "obj_field kvs ''password'' \<noteq> obj_field kvs ''confirmPassword''"
    by (cases "req_body req") auto
  define r where "r = parse_shape L caregiverFormShape kvs"
  have "\<exists>issues. issues \<noteq> [] \<and> zparse (caregiverFormSchema L (JObj kvs)) = Inl issues"
  proof (cases "snd r")
    case None
    then have "fst r \<noteq> []" unfolding r_def by (rule parse_shape_aborted)
    moreover from None have "zparse (caregiverFormSchema L (JObj kvs)) = Inl (fst r)"
      by (cases r) (simp add: caregiverFormSchema_def z_object_def refine_def r_def [symmetric]
          zparse_def split: list.splits)
    ultimately show ?thesis by blast
  next
    case (Some d)
    have dist: "distinct (map fst caregiverFormShape)" by (simp add: caregiverFormShape_eq)
    have "obj_field d ''password'' = obj_field kvs ''password''"
      by (rule parse_shape_same [OF Some [unfolded r_def] dist, of _ "ZString [MinLength 8 ''Password must be at least 8 characters'']"])
         (simp_all add: caregiverFormShape_eq)
    moreover have "obj_field d ''confirmPassword'' = obj_field kvs ''confirmPassword''"
      by (rule parse_shape_same [OF Some [unfolded r_def] dist, of _ "ZString []"])
         (simp_all add: caregiverFormShape_eq)
    ultimately have "obj_field d ''password'' \<noteq> obj_field d ''confirmPassword''" using ne by simp
    with Some have "zparse (caregiverFormSchema L (JObj kvs))
        = Inl (fst r @ [Issue (custom ''Passwords do not match'') [''confirmPassword'']])"
      by (cases r) (simp add: caregiverFormSchema_def z_object_def refine_def r_def [symmetric]
          zparse_def split: list.splits)
    then show ?thesis by blast
  qed
  then obtain issues where "issues \<noteq> []" "zparse (caregiverFormSchema L (JObj kvs)) = Inl issues"
    by blast
  with assms(1) b show ?thesis
    by (auto simp: post_caregivers_def ensureAuthenticated_def)
qed

theorem post_caregivers_password_mismatch_witness:
  "req_user (authenticated 1 NaN (caregiver_form ''dave'' ''pass-ward'' JUndefined)) = Some 1
   \<and> get_prop (req_body (authenticated 1 NaN (caregiver_form ''dave'' ''pass-ward'' JUndefined))) ''password''
      \<noteq> get_prop (req_body (authenticated 1 NaN (caregiver_form ''dave'' ''pass-ward'' JUndefined))) ''confirmPassword''
   \<and> post_caregivers sample_env mem_storage
        (authenticated 1 NaN (caregiver_form ''dave'' ''pass-ward'' JUndefined)) sample_store
      = (respond 400 (Issues [Issue (custom ''Passwords do not match'') [''confirmPassword'']]),
         sample_store)"
  using post_caregivers_password_mismatch [of "authenticated 1 NaN (caregiver_form ''dave'' ''pass-ward'' JUndefined)" 1
      sample_env mem_storage sample_store]
  by (simp add: post_caregivers_def route_defs zod_defs sample_env_def caregiver_form_def obj_field_def)

text \<open>
  C6. A \<open>POST /api/caregivers\<close> of an authenticated user whose \<open>username\<close> is that of
  a caregiver the store already has is answered 400, and the store is left as it was.
\<close>

theorem post_caregivers_duplicate_username:
  assumes "req_user req = Some uid"
      and "get_prop (req_body req) ''username'' = Returned name"
      and "getCaregiverByUsername S st name = Returned (Some c)"
  shows "status (fst (post_caregivers L S req st)) = 400 \<and> snd (post_caregivers L S req st) = st"
proof (cases "zparse (caregiverFormSchema L (req_body req))")
  case (Inl issues)
  with assms(1) show ?thesis
    by (simp add: post_caregivers_def ensureAuthenticated_def respond_def)
next
  case (Inr form)
  from caregiver_form_parsed [OF Inr] obtain kvs where b: "req_body req = JObj kvs" by blast
  with assms(2) have n: "obj_field kvs ''username'' = name" by simp
  have "obj_field form ''username'' = obj_field kvs ''username''"
    by (rule caregiver_form_field [OF Inr [unfolded b], of _ "ZString []"])
       (simp add: caregiverFormShape_eq)
  with n have "obj_field (filter (\<lambda>(k, v). k \<noteq> ''confirmPassword'') form) ''username'' = name"
    by (simp add: obj_field_filter)
  with assms(1,3) Inr show ?thesis
    by (simp add: post_caregivers_def ensureAuthenticated_def respond_def)
qed

theorem post_caregivers_duplicate_username_witness:
  "req_user (authenticated 2 NaN (caregiver_form ''carol'' ''pass-word'' JUndefined)) = Some 2
   \<and> get_prop (req_body (authenticated 2 NaN (caregiver_form ''carol'' ''pass-word'' JUndefined))) ''username''
      = Returned (JStr ''carol'')
   \<and> getCaregiverByUsername mem_storage sample_store (JStr ''carol'') = Returned (Some carol)
   \<and> post_caregivers sample_env mem_storage
        (authenticated 2 NaN (caregiver_form ''carol'' ''pass-word'' JUndefined)) sample_store
      = (respond 400 (Error ''Username already exists''), sample_store)"
  using post_caregivers_duplicate_username [of "authenticated 2 NaN (caregiver_form ''carol'' ''pass-word'' JUndefined)" 2
      "JStr ''carol''" mem_storage sample_store carol sample_env]
  by (simp add: post_caregivers_def route_defs zod_defs mem_defs sample_defs)

text \<open>
  C10. \<open>POST /api/medications\<close> replaces the body's \<open>userId\<close> by the session user's
  id before it validates. The answer to a body is the answer to the same body with
  every supplied \<open>userId\<close> removed, so a supplied \<open>userId\<close>, valid or not, is neither
  used nor refused. What is validated is the body with \<open>userId\<close> set to the session
  user's id: when that fails the answer is 400 with its issues and the store is
  untouched; otherwise \<open>createMedication\<close> is called with the validated data, whose
  \<open>userId\<close> is the session user's id, and the answer is 201 with the row created, or
  500 when the call throws.
\<close>

theorem post_medications_owner:
  assumes "req_user req = Some uid"
  shows "post_medications L S req st
           = post_medications L S
               (req\<lparr>req_body := JObj (filter (\<lambda>(k, v). k \<noteq> ''userId'') (spread (req_body req)))\<rparr>) st
       \<and> ((\<exists>issues.
              parse L medicationFormSchema (spread_with (req_body req) ''userId'' (JNum uid)) = Inl issues
            \<and> post_medications L S req st = (respond 400 (Issues issues), st))
          \<or> (\<exists>data.
              parse L medicationFormSchema (spread_with (req_body req) ''userId'' (JNum uid)) = Inr data
            \<and> obj_field data ''userId'' = JNum uid
            \<and> post_medications L S req st =
                 (case createMedication S st data of
                    (Threw, st') \<Rightarrow> (respond 500 (Error ''Failed to create medication''), st')
                  | (Returned medication, st') \<Rightarrow> (respond 201 (OfMedication medication), st'))))"
proof (intro conjI)
  from assms show "post_medications L S req st
           = post_medications L S
               (req\<lparr>req_body := JObj (filter (\<lambda>(k, v). k \<noteq> ''userId'') (spread (req_body req)))\<rparr>) st"
    using overwritten_userId_parse [of L medicationFormSchema "req_body req" "JNum uid"]
    by (simp add: post_medications_def ensureAuthenticated_def)
next
  show "(\<exists>issues.
              parse L medicationFormSchema (spread_with (req_body req) ''userId'' (JNum uid)) = Inl issues
            \<and> post_medications L S req st = (respond 400 (Issues issues), st))
          \<or> (\<exists>data.
              parse L medicationFormSchema (spread_with (req_body req) ''userId'' (JNum uid)) = Inr data
            \<and> obj_field data ''userId'' = JNum uid
            \<and> post_medications L S req st =
                 (case createMedication S st data of
                    (Threw, st') \<Rightarrow> (respond 500 (Error ''Failed to create medication''), st')
                  | (Returned medication, st') \<Rightarrow> (respond 201 (OfMedication medication), st')))"
  proof (cases "parse L medicationFormSchema (spread_with (req_body req) ''userId'' (JNum uid))")
    case (Inl issues)
    with assms have "post_medications L S req st = (respond 400 (Issues issues), st)"
      by (simp add: post_medications_def ensureAuthenticated_def)
    with Inl show ?thesis by blast
  next
    case (Inr data)
    have "obj_field data ''userId'' = obj_field ((''userId'', JNum uid) # spread (req_body req)) ''userId''"
      by (rule parse_object_field [OF Inr [unfolded spread_with_def], of _ ZInteger])
         (simp_all add: medicationFormSchema_eq)
    then have "obj_field data ''userId'' = JNum uid" by (simp add: obj_field_def)
    moreover from assms Inr have "post_medications L S req st =
        (case createMedication S st data of
           (Threw, st') \<Rightarrow> (respond 500 (Error ''Failed to create medication''), st')
         | (Returned medication, st') \<Rightarrow> (respond 201 (OfMedication medication), st'))"
      by (simp add: post_medications_def ensureAuthenticated_def)
    ultimately show ?thesis using Inr by blast
  qed
qed

theorem post_medications_owner_witness:
  "req_user (authenticated 1 NaN (JObj ((''userId'', JStr ''bob'') # ibuprofen_form))) = Some 1
   \<and> post_medications sample_env mem_storage
        (authenticated 1 NaN (JObj ((''userId'', JStr ''bob'') # ibuprofen_form))) sample_store
      = post_medications sample_env mem_storage (authenticated 1 NaN (JObj ibuprofen_form)) sample_store
   \<and> parse sample_env medicationFormSchema
        (spread_with (JObj ((''userId'', JStr ''bob'') # ibuprofen_form)) ''userId'' (JNum 1))
      = Inr ((''userId'', JNum 1) # [(''name'', JStr ''Ibuprofen''), (''dosage'', JStr ''200mg''),
              (''frequency'', JStr ''daily''), (''startTime'', JDate 50)])
   \<and> post_medications sample_env mem_storage
        (authenticated 1 NaN (JObj ((''userId'', JStr ''bob'') # ibuprofen_form))) sample_store
      = (respond 201 (OfMedication ibuprofen),
         sample_store\<lparr>mem_medications := [aspirin, ibuprofen]\<rparr>)
   \<and> post_medications sample_env mem_storage
        (authenticated 1 NaN (JObj ((''userId'', JNum 2) # ibuprofen_form))) sample_store
      = (respond 201 (OfMedication ibuprofen),
         sample_store\<lparr>mem_medications := [aspirin, ibuprofen]\<rparr>)"
  using post_medications_owner [of "authenticated 1 NaN (JObj ((''userId'', JStr ''bob'') # ibuprofen_form))" 1
       sample_env mem_storage sample_store]
  by (simp add: post_medications_def route_defs zod_defs mem_defs sample_defs ibuprofen_form_def
      ibuprofen_def)

text \<open>
  C4. The body of a 201 answer of \<open>POST /api/caregivers\<close> is the caregiver row that
  \<open>createCaregiver\<close> returned, with \<open>accessLevel\<close> added: every column of the row is
  in it, the \<open>password\<close> among them.
\<close>

theorem post_caregivers_returns_password:
  assumes "req_user req = Some uid"
      and "post_caregivers L S req st = (res, st')"
      and "status res = 201"
  shows "\<exists>kvs caregiverData c st1 level.
           req_body req = JObj kvs
         \<and> obj_field caregiverData ''password'' = obj_field kvs ''password''
         \<and> createCaregiver S st caregiverData = (Returned c, st1)
         \<and> body res = OfCaregiverAccess (with_accessLevel c level)
         \<and> caregiver.truncate (with_accessLevel c level) = c
         \<and> accessLevel (with_accessLevel c level) = level
         \<and> c_password (with_accessLevel c level) = c_password c"
proof -
  from post_caregivers_created [OF assms] obtain kvs form c st1 link uc where
    b: "req_body req = JObj kvs" and
    f: "zparse (caregiverFormSchema L (JObj kvs)) = Inr form" and
    c: "createCaregiver S st (filter (\<lambda>(k, v). k \<noteq> ''confirmPassword'') form) = (Returned c, st1)" and
    "parse L userCaregiverSchema
              (JObj [(''userId'', JNum uid), (''caregiverId'', JNum (c_id c)),
                     (''accessLevel'', js_or (obj_field kvs ''accessLevel'') (JStr ''full'')),
                     (''active'', JBool True)]) = Inr link" and
    "linkCaregiverToUser S st1 link = (Returned uc, st')" and
    r: "res = respond 201 (OfCaregiverAccess (with_accessLevel c (uc_accessLevel uc)))"
    by blast
  have "obj_field form ''password'' = obj_field kvs ''password''"
    by (rule caregiver_form_field [OF f, of _ "ZString [MinLength 8 ''Password must be at least 8 characters'']"])
       (simp add: caregiverFormShape_eq)
  then have pw: "obj_field (filter (\<lambda>(k, v). k \<noteq> ''confirmPassword'') form) ''password''
      = obj_field kvs ''password''"
    by (simp add: obj_field_filter)
  have "body res = OfCaregiverAccess (with_accessLevel c (uc_accessLevel uc))"
    using r by (simp add: respond_def)
  moreover have "caregiver.truncate (with_accessLevel c (uc_accessLevel uc)) = c"
    "accessLevel (with_accessLevel c (uc_accessLevel uc)) = uc_accessLevel uc"
    "c_password (with_accessLevel c (uc_accessLevel uc)) = c_password c"
    by (simp_all add: with_accessLevel_def caregiver.extend_def caregiver.truncate_def
        caregiver_with_access.fields_def)
  ultimately show ?thesis using b pw c by blast
qed

theorem post_caregivers_returns_password_witness:
  "req_user (authenticated 1 NaN (caregiver_form ''dave'' ''pass-word'' (JStr ''limited''))) = Some 1
   \<and> status (fst (post_caregivers sample_env mem_storage
        (authenticated 1 NaN (caregiver_form ''dave'' ''pass-word'' (JStr ''limited''))) sample_store)) = 201
   \<and> body (fst (post_caregivers sample_env mem_storage
        (authenticated 1 NaN (caregiver_form ''dave'' ''pass-word'' (JStr ''limited''))) sample_store))
      = OfCaregiverAccess (with_accessLevel dave ''limited'')
   \<and> c_password (with_accessLevel dave ''limited'') = ''pass-word''"
  using post_caregivers_returns_password [of
      "authenticated 1 NaN (caregiver_form ''dave'' ''pass-word'' (JStr ''limited''))" 1
      sample_env mem_storage sample_store
      "fst (post_caregivers sample_env mem_storage
        (authenticated 1 NaN (caregiver_form ''dave'' ''pass-word'' (JStr ''limited''))) sample_store)"
      "snd (post_caregivers sample_env mem_storage
        (authenticated 1 NaN (caregiver_form ''dave'' ''pass-word'' (JStr ''limited''))) sample_store)"]
  by (simp add: post_caregivers_def route_defs zod_defs mem_defs sample_defs)

text \<open>
  C7, as amended. A \<open>POST /api/caregivers\<close> that answers 201 has inserted a join record
  with the requester's id as \<open>userId\<close>, the new caregiver's id as \<open>caregiverId\<close>,
  \<open>active = true\<close>, and as \<open>accessLevel\<close> the request's \<open>accessLevel\<close> when that is
  truthy, \<open>"full"\<close> otherwise; the answer is the caregiver row with the
  \<open>accessLevel\<close> of the join record the store returned.
\<close>

theorem post_caregivers_links_requester:
  assumes "req_user req = Some uid"
      and "post_caregivers L S req st = (res, st')"
      and "status res = 201"
  shows "\<exists>kvs caregiverData c st1 link uc.
           req_body req = JObj kvs
         \<and> createCaregiver S st caregiverData = (Returned c, st1)
         \<and> linkCaregiverToUser S st1 link = (Returned uc, st')
         \<and> obj_field link ''userId'' = JNum uid
         \<and> obj_field link ''caregiverId'' = JNum (c_id c)
         \<and> obj_field link ''active'' = JBool True
         \<and> obj_field link ''accessLevel'' =
             (if truthy (obj_field kvs ''accessLevel'') then obj_field kvs ''accessLevel''
              else JStr ''full'')
         \<and> res = respond 201 (OfCaregiverAccess (with_accessLevel c (uc_accessLevel uc)))"
proof -
  from post_caregivers_created [OF assms] obtain kvs form c st1 link uc where
    b: "req_body req = JObj kvs" and
    c: "createCaregiver S st (filter (\<lambda>(k, v). k \<noteq> ''confirmPassword'') form) = (Returned c, st1)" and
    p: "parse L userCaregiverSchema
              (JObj [(''userId'', JNum uid), (''caregiverId'', JNum (c_id c)),
                     (''accessLevel'', js_or (obj_field kvs ''accessLevel'') (JStr ''full'')),
                     (''active'', JBool True)]) = Inr link" and
    l: "linkCaregiverToUser S st1 link = (Returned uc, st')" and
    r: "res = respond 201 (OfCaregiverAccess (with_accessLevel c (uc_accessLevel uc)))"
    by blast
  have d: "distinct (map fst userCaregiverSchema)" by (simp add: userCaregiverSchema_eq)
  have "obj_field link ''userId'' = JNum uid"
    using parse_object_field [OF p d, of "''userId''" ZInteger]
    by (simp add: userCaregiverSchema_eq obj_field_def)
  moreover have "obj_field link ''caregiverId'' = JNum (c_id c)"
    using parse_object_field [OF p d, of "''caregiverId''" ZInteger]
    by (simp add: userCaregiverSchema_eq obj_field_def)
  moreover have "obj_field link ''active'' = JBool True"
    using parse_object_field [OF p d, of "''active''" "ZOptional (ZNullable ZBoolean)"]
    by (simp add: userCaregiverSchema_eq obj_field_def)
  moreover have "obj_field link ''accessLevel'' = js_or (obj_field kvs ''accessLevel'') (JStr ''full'')"
    using parse_object_field [OF p d, of "''accessLevel''" "ZOptional (ZString [])"]
    by (simp add: userCaregiverSchema_eq obj_field_def)
  ultimately show ?thesis using b c l r unfolding js_or_def by blast
qed

theorem post_caregivers_links_requester_witness:
  "req_user (authenticated 2 NaN (caregiver_form ''dave'' ''pass-word'' (JStr ''limited''))) = Some 2
   \<and> status (fst (post_caregivers sample_env mem_storage
        (authenticated 2 NaN (caregiver_form ''dave'' ''pass-word'' (JStr ''limited''))) sample_store)) = 201
   \<and> post_caregivers sample_env mem_storage
        (authenticated 2 NaN (caregiver_form ''dave'' ''pass-word'' (JStr ''limited''))) sample_store
     = (respond 201 (OfCaregiverAccess (with_accessLevel dave ''limited'')),
        sample_store\<lparr>mem_caregivers := [carol, dave],
          mem_userCaregivers := [carol_link,
            \<lparr>uc_id = 2, uc_userId = 2, uc_caregiverId = 2, uc_accessLevel = ''limited'',
             uc_active = Some True, uc_createdAt = Some 100\<rparr>]\<rparr>)"
  using post_caregivers_links_requester [of
      "authenticated 2 NaN (caregiver_form ''dave'' ''pass-word'' (JStr ''limited''))" 2
      sample_env mem_storage sample_store
      "fst (post_caregivers sample_env mem_storage
        (authenticated 2 NaN (caregiver_form ''dave'' ''pass-word'' (JStr ''limited''))) sample_store)"
      "snd (post_caregivers sample_env mem_storage
        (authenticated 2 NaN (caregiver_form ''dave'' ''pass-word'' (JStr ''limited''))) sample_store)"]
  by (simp add: post_caregivers_def route_defs zod_defs mem_defs sample_defs)

text \<open>
  C7, as first stated, fails for an \<open>accessLevel\<close> that is given and falsy: the request
  gives the empty string, is answered 201, and the join record and the answer have
  \<open>"full"\<close>.
\<close>

theorem post_caregivers_empty_level:
  "get_prop (req_body (authenticated 1 NaN (caregiver_form ''dave'' ''pass-word'' (JStr []))))
       ''accessLevel'' = Returned (JStr [])
   \<and> post_caregivers sample_env mem_storage
       (authenticated 1 NaN (caregiver_form ''dave'' ''pass-word'' (JStr []))) sample_store
     = (respond 201 (OfCaregiverAccess (with_accessLevel dave ''full'')),
        sample_store\<lparr>mem_caregivers := [carol, dave],
          mem_userCaregivers := [carol_link,
            \<lparr>uc_id = 2, uc_userId = 1, uc_caregiverId = 2, uc_accessLevel = ''full'',
             uc_active = Some True, uc_createdAt = Some 100\<rparr>]\<rparr>)
   \<and> ''full'' \<noteq> []"
  by (simp add: post_caregivers_def route_defs zod_defs mem_defs sample_defs)

text \<open>
  C5. The partial medication schema of \<open>PUT /api/medications/:id\<close> keeps \<open>userId\<close>.
  When the owner sends a valid body whose \<open>userId\<close> is another user's id, the value
  passes validation unchanged and goes to \<open>updateMedication\<close>; with a store that
  applies the update, the answer is 200 with the medication under its new owner, and
  the former owner's \<open>GET /api/medications/:id\<close> is then answered 403.
\<close>

theorem put_medication_reassigns_owner:
  assumes "req_user req = Some uid"
      and "getMedication S st (req_id req) = Returned (Some m)"
      and "m_userId m = uid"
      and "req_body req = JObj kvs"
      and "obj_field kvs ''userId'' = JNum other"
      and "other \<noteq> uid"
      and "parse L (partial medicationSchema) (JObj kvs) = Inr validatedData"
      and "updateMedication S st (req_id req) validatedData = (Returned (Some m'), st')"
      and "JNum (m_userId m') = obj_field validatedData ''userId''"
      and "getMedication S st' (req_id req) = Returned (Some m')"
  shows "(''userId'', ZOptional ZInteger) \<in> set (partial medicationSchema)
       \<and> obj_field validatedData ''userId'' = JNum other
       \<and> put_medication L S req st = (respond 200 (OfMedication m'), st')
       \<and> m_userId m' = other
       \<and> get_medication S req st' = (respond 403 (Error ''Unauthorized access to medication''), st')"
proof -
  have s: "(''userId'', ZOptional ZInteger) \<in> set (partial medicationSchema)"
    by (simp add: partial_medicationSchema_eq)
  have d: "distinct (map fst (partial medicationSchema))"
    by (simp add: partial_medicationSchema_eq)
  have v: "obj_field validatedData ''userId'' = JNum other"
    using parse_object_field [OF assms(7) d s] assms(5) by simp
  with assms(9) have o: "m_userId m' = other" by simp
  from assms(1-4,7,8) have "put_medication L S req st = (respond 200 (OfMedication m'), st')"
    by (simp add: put_medication_def ensureAuthenticated_def)
  moreover from assms(1,6,10) o
  have "get_medication S req st' = (respond 403 (Error ''Unauthorized access to medication''), st')"
    by (simp add: get_medication_def ensureAuthenticated_def)
  ultimately show ?thesis using s v o by simp
qed

theorem put_medication_reassigns_owner_witness:
  "req_user (authenticated 1 (Num 1) (JObj [(''userId'', JNum 2)])) = Some 1
   \<and> getMedication mem_storage sample_store (req_id (authenticated 1 (Num 1) (JObj [(''userId'', JNum 2)])))
      = Returned (Some aspirin)
   \<and> m_userId aspirin = 1
   \<and> req_body (authenticated 1 (Num 1) (JObj [(''userId'', JNum 2)])) = JObj [(''userId'', JNum 2)]
   \<and> obj_field [(''userId'', JNum 2)] ''userId'' = JNum 2
   \<and> (2::int) \<noteq> 1
   \<and> parse sample_env (partial medicationSchema) (JObj [(''userId'', JNum 2)]) = Inr [(''userId'', JNum 2)]
   \<and> updateMedication mem_storage sample_store (req_id (authenticated 1 (Num 1) (JObj [(''userId'', JNum 2)])))
        [(''userId'', JNum 2)]
      = (Returned (Some (aspirin\<lparr>m_userId := 2\<rparr>)),
         sample_store\<lparr>mem_medications := [aspirin\<lparr>m_userId := 2\<rparr>]\<rparr>)
   \<and> JNum (m_userId (aspirin\<lparr>m_userId := 2\<rparr>)) = obj_field [(''userId'', JNum 2)] ''userId''
   \<and> getMedication mem_storage (sample_store\<lparr>mem_medications := [aspirin\<lparr>m_userId := 2\<rparr>]\<rparr>)
        (req_id (authenticated 1 (Num 1) (JObj [(''userId'', JNum 2)])))
      = Returned (Some (aspirin\<lparr>m_userId := 2\<rparr>))
   \<and> put_medication sample_env mem_storage (authenticated 1 (Num 1) (JObj [(''userId'', JNum 2)])) sample_store
      = (respond 200 (OfMedication (aspirin\<lparr>m_userId := 2\<rparr>)),
         sample_store\<lparr>mem_medications := [aspirin\<lparr>m_userId := 2\<rparr>]\<rparr>)
   \<and> get_medication mem_storage (authenticated 1 (Num 1) (JObj [(''userId'', JNum 2)]))
        (sample_store\<lparr>mem_medications := [aspirin\<lparr>m_userId := 2\<rparr>]\<rparr>)
      = (respond 403 (Error ''Unauthorized access to medication''),
         sample_store\<lparr>mem_medications := [aspirin\<lparr>m_userId := 2\<rparr>]\<rparr>)"
  using put_medication_reassigns_owner [of "authenticated 1 (Num 1) (JObj [(''userId'', JNum 2)])" 1
      mem_storage sample_store aspirin "[(''userId'', JNum 2)]" 2 sample_env "[(''userId'', JNum 2)]"
      "aspirin\<lparr>m_userId := 2\<rparr>" "sample_store\<lparr>mem_medications := [aspirin\<lparr>m_userId := 2\<rparr>]\<rparr>"]
  by (simp add: put_medication_def get_medication_def route_defs zod_defs mem_defs sample_defs)

text \<open>
  The medication routes that write do so last. Whenever \<open>PUT /api/medications/:id\<close> or
  \<open>DELETE /api/medications/:id\<close> leaves another store than it found, the requester was
  authenticated, the medication existed and was the requester's, the body (of the
  \<open>PUT\<close>) was valid, and the store is the one the single write left.
\<close>

lemma put_medication_writes_last:
  assumes "snd (put_medication L S req st) \<noteq> st"
  shows "\<exists>uid m validatedData.
           req_user req = Some uid
         \<and> getMedication S st (req_id req) = Returned (Some m)
         \<and> m_userId m = uid
         \<and> parse L (partial medicationSchema) (req_body req) = Inr validatedData
         \<and> snd (put_medication L S req st) = snd (updateMedication S st (req_id req) validatedData)"
  using assms
  by (auto simp: put_medication_def ensureAuthenticated_def
      split: option.splits outcome.splits sum.splits prod.splits if_splits)

lemma delete_medication_writes_last:
  assumes "snd (delete_medication S req st) \<noteq> st"
  shows "\<exists>uid m.
           req_user req = Some uid
         \<and> getMedication S st (req_id req) = Returned (Some m)
         \<and> m_userId m = uid
         \<and> snd (delete_medication S req st) = snd (deleteMedication S st (req_id req))"
  using assms
  by (auto simp: delete_medication_def ensureAuthenticated_def
      split: option.splits outcome.splits prod.splits if_splits)

text \<open>
  The two other routes that write do so first, for every implementation of the
  gateway: the store a 403 of \<open>PUT /api/reminders/:id\<close> or of
  \<open>PUT /api/caregivers/:id/access\<close> leaves is the store after the update.
\<close>

lemma put_reminder_forbidden_after_update:
  assumes "req_user req = Some uid"
      and "get_prop (req_body req) ''taken'' = Returned taken"
      and "get_prop (req_body req) ''skipped'' = Returned skipped"
      and "updateMedicationReminder S st (req_id req) taken skipped = (Returned (Some r), st')"
      and "getMedication S st' (Num (r_medicationId r)) = Returned (Some m)"
      and "m_userId m \<noteq> uid"
  shows "put_reminder S req st = (respond 403 (Error ''Unauthorized access to reminder''), st')"
  using assms by (simp add: put_reminder_def ensureAuthenticated_def)

lemma put_caregiver_access_forbidden_after_update:
  assumes "req_user req = Some uid"
      and "get_prop (req_body req) ''accessLevel'' = Returned level"
      and "get_prop (req_body req) ''active'' = Returned active"
      and "updateCaregiverAccess S st (req_id req) level active = (Returned (Some l), st')"
      and "uc_userId l \<noteq> uid"
  shows "put_caregiver_access S req st
           = (respond 403 (Error ''Unauthorized access to caregiver''), st')"
  using assms by (simp add: put_caregiver_access_def ensureAuthenticated_def)

text \<open>
  C1. On the sample store a user who does not own the medication of a reminder sends
  \<open>PUT /api/reminders/1\<close> with \<open>taken = true\<close>: the answer is 403, and the reminder's
  \<open>taken\<close>, which was false, is true in the store the route leaves. The route updates
  first and checks the owner afterwards.
\<close>

theorem put_reminder_writes_before_check:
  "put_reminder mem_storage (authenticated 2 (Num 1) (JObj [(''taken'', JBool True)])) sample_store
     = (respond 403 (Error ''Unauthorized access to reminder''),
        sample_store\<lparr>mem_reminders := [dose\<lparr>r_taken := Some True\<rparr>]\<rparr>)
   \<and> r_taken dose = Some False"
  by (simp add: put_reminder_def route_defs mem_defs sample_defs Let_def)

text \<open>
  C2. On the sample store a user to whom the caregiver link does not belong sends
  \<open>PUT /api/caregivers/1/access\<close> with a new \<open>accessLevel\<close>: the answer is 403, and the
  link's \<open>accessLevel\<close> has changed in the store the route leaves. The write comes
  before the ownership check.
\<close>

theorem put_caregiver_access_writes_before_check:
  "put_caregiver_access mem_storage
       (authenticated 2 (Num 1) (JObj [(''accessLevel'', JStr ''full'')])) sample_store
     = (respond 403 (Error ''Unauthorized access to caregiver''),
        sample_store\<lparr>mem_userCaregivers := [carol_link\<lparr>uc_accessLevel := ''full''\<rparr>]\<rparr>)
   \<and> uc_accessLevel carol_link = ''read-only''"
  by (simp add: put_caregiver_access_def route_defs mem_defs sample_defs Let_def)

end
